theory Spec2Isabelle
  imports Main
begin

section \<open>Python values and exceptions\<close>

text \<open>
  The orchestration code works on text and on the values that \<^verbatim>\<open>json.loads\<close> produces.
  A Python \<^verbatim>\<open>str\<close> is a \<^typ>\<open>string\<close>: a list of characters, each read as one code point
  in U+0000..U+00FF, so that \<^const>\<open>length\<close> is Python's \<^verbatim>\<open>len\<close>. Text with code points beyond
  U+00FF and floating-point numbers are outside the model.

  Every \<^verbatim>\<open>raise\<close> of the source is a value: a function that can raise returns
  \<open>exn + 'a\<close>, with \<open>Inl\<close> for the exception.
\<close>

datatype exn =
    JSONDecodeError
  | TypeError
  | AttributeError
  | KeyError
  | ValueError
  | IndexError
  | UnboundLocalError

section \<open>String operations of Python\<close>

text \<open>
  \<^verbatim>\<open>str.isspace\<close> on the code points below U+0100: the characters that
  \<^verbatim>\<open>str.strip()\<close> removes.
\<close>

definition py_isspace :: "char \<Rightarrow> bool" where
  "py_isspace c =
     (let n = (of_char c :: nat)
      in (9 \<le> n \<and> n \<le> 13) \<or> (28 \<le> n \<and> n \<le> 32) \<or> n = 133 \<or> n = 160)"

definition py_lstrip :: "string \<Rightarrow> string" where
  "py_lstrip s = dropWhile py_isspace s"

definition py_rstrip :: "string \<Rightarrow> string" where
  "py_rstrip s = rev (dropWhile py_isspace (rev s))"

definition py_strip :: "string \<Rightarrow> string" where
  "py_strip s = py_rstrip (py_lstrip s)"

definition startswith :: "string \<Rightarrow> string \<Rightarrow> bool" where
  "startswith s p = (take (length p) s = p)"

definition endswith :: "string \<Rightarrow> string \<Rightarrow> bool" where
  "endswith s p = (length p \<le> length s \<and> drop (length s - length p) s = p)"

text \<open>\<^verbatim>\<open>needle in hay\<close> on two strings: \<open>needle\<close> occurs in \<open>hay\<close> as a contiguous block.\<close>

fun py_in_str :: "string \<Rightarrow> string \<Rightarrow> bool" where
  "py_in_str needle [] = (needle = [])"
| "py_in_str needle (c # cs) = (startswith (c # cs) needle \<or> py_in_str needle cs)"

text \<open>\<^verbatim>\<open>s.count(c)\<close> for a one-character \<open>c\<close>.\<close>

definition py_count :: "string \<Rightarrow> char \<Rightarrow> int" where
  "py_count s c = int (length (filter (\<lambda>x. x = c) s))"

text \<open>
  \<^verbatim>\<open>s.split(c)\<close> for a one-character separator: the pieces between the separators,
  empty pieces kept; never the empty list.
\<close>

fun py_split :: "char \<Rightarrow> string \<Rightarrow> string list" where
  "py_split c [] = [[]]"
| "py_split c (x # xs) =
     (if x = c then [] # py_split c xs
      else (case py_split c xs of
              [] \<Rightarrow> [[x]]
            | y # ys \<Rightarrow> (x # y) # ys))"

text \<open>\<^verbatim>\<open>xs[-1]\<close>: the last element, \<^verbatim>\<open>IndexError\<close> on the empty list.\<close>

definition py_last :: "'a list \<Rightarrow> exn + 'a" where
  "py_last xs = (case rev xs of [] \<Rightarrow> Inl IndexError | x # _ \<Rightarrow> Inr x)"

text \<open>
  \<^verbatim>\<open>str.lower()\<close> on the code points below U+0100: A..Z and the capital letters
  U+00C0..U+00DE (without the multiplication sign U+00D7) move up by 32.
\<close>

definition upper_chars :: "char list" where
  "upper_chars = ''ABCDEFGHIJKLMNOPQRSTUVWXYZ'' @
     [CHR 0xC0, CHR 0xC1, CHR 0xC2, CHR 0xC3, CHR 0xC4, CHR 0xC5, CHR 0xC6, CHR 0xC7,
      CHR 0xC8, CHR 0xC9, CHR 0xCA, CHR 0xCB, CHR 0xCC, CHR 0xCD, CHR 0xCE, CHR 0xCF,
      CHR 0xD0, CHR 0xD1, CHR 0xD2, CHR 0xD3, CHR 0xD4, CHR 0xD5, CHR 0xD6,
      CHR 0xD8, CHR 0xD9, CHR 0xDA, CHR 0xDB, CHR 0xDC, CHR 0xDD, CHR 0xDE]"

definition lower_chars :: "char list" where
  "lower_chars = ''abcdefghijklmnopqrstuvwxyz'' @
     [CHR 0xE0, CHR 0xE1, CHR 0xE2, CHR 0xE3, CHR 0xE4, CHR 0xE5, CHR 0xE6, CHR 0xE7,
      CHR 0xE8, CHR 0xE9, CHR 0xEA, CHR 0xEB, CHR 0xEC, CHR 0xED, CHR 0xEE, CHR 0xEF,
      CHR 0xF0, CHR 0xF1, CHR 0xF2, CHR 0xF3, CHR 0xF4, CHR 0xF5, CHR 0xF6,
      CHR 0xF8, CHR 0xF9, CHR 0xFA, CHR 0xFB, CHR 0xFC, CHR 0xFD, CHR 0xFE]"

definition py_lower_char :: "char \<Rightarrow> char" where
  "py_lower_char c = (case map_of (zip upper_chars lower_chars) c of Some l \<Rightarrow> l | None \<Rightarrow> c)"

definition py_lower :: "string \<Rightarrow> string" where
  "py_lower s = map py_lower_char s"

section \<open>functions.py: get_file_type\<close>

text \<open>
  \<^verbatim>\<open>
  def get_file_type(file_path):
      extension = file_path.split('.')[-1].lower()
      type_map = {'jsx': 'react_component', 'js': 'javascript', 'css': 'stylesheet',
                  'json': 'configuration', 'html': 'markup', 'md': 'markdown'}
      return type_map.get(extension, 'unknown')
  \<close>
\<close>

definition type_map :: "(string \<times> string) list" where
  "type_map =
     [(''jsx'', ''react_component''),
      (''js'', ''javascript''),
      (''css'', ''stylesheet''),
      (''json'', ''configuration''),
      (''html'', ''markup''),
      (''md'', ''markdown'')]"

text \<open>\<^verbatim>\<open>type_map.get(extension, dflt)\<close>.\<close>

definition type_map_get :: "string \<Rightarrow> string \<Rightarrow> string" where
  "type_map_get extension dflt =
     (case map_of type_map extension of Some t \<Rightarrow> t | None \<Rightarrow> dflt)"

definition get_file_type :: "string \<Rightarrow> exn + string" where
  "get_file_type file_path =
     (case py_last (py_split (CHR ''.'') file_path) of
        Inl e \<Rightarrow> Inl e
      | Inr piece \<Rightarrow>
          (let extension = py_lower piece
           in Inr (type_map_get extension ''unknown'')))"

section \<open>models.py: TokenManager\<close>

text \<open>
  The fields of \<^verbatim>\<open>TokenManager\<close> that its methods read and write (the tokenizer is an
  external capability and not part of the state). Token counts are Python integers.
  \<^verbatim>\<open>start_time\<close> is a \<^verbatim>\<open>datetime\<close>, here the number of microseconds since a fixed
  origin, which is the resolution of \<^verbatim>\<open>datetime\<close>.
\<close>

record TokenManager =
  max_tokens_per_minute :: int
  token_limit_threshold :: int
  tokens_used :: int
  start_time :: int
  continuation_needed :: bool
  last_generated_content :: string

text \<open>\<^verbatim>\<open>TokenManager(max_tokens_per_minute=8000, token_limit_threshold=7500)\<close> created at time \<open>now\<close>.\<close>

definition TokenManager_init :: "int \<Rightarrow> int \<Rightarrow> int \<Rightarrow> TokenManager" where
  "TokenManager_init max_tokens threshold now =
     \<lparr>max_tokens_per_minute = max_tokens, token_limit_threshold = threshold,
      tokens_used = 0, start_time = now,
      continuation_needed = False, last_generated_content = ''''\<rparr>"

text \<open>
  \<^verbatim>\<open>
  def check_and_wait(self, estimated_response_tokens=500):
      current_time = datetime.now()
      elapsed_time = (current_time - self.start_time).total_seconds()
      if elapsed_time >= 60:
          self.tokens_used = 0
          self.start_time = current_time
          return
      if self.tokens_used + estimated_response_tokens >= self.token_limit_threshold:
          wait_time = 60 - elapsed_time
          if wait_time > 0:
              time.sleep(wait_time)
              self.tokens_used = 0
              self.start_time = datetime.now()
  \<close>
  The two readings of the clock are inputs: \<open>current_time\<close> is the reading of the first
  line, \<open>woke_time\<close> the reading after the sleep. Elapsed and waiting times are counted in
  microseconds, so \<^verbatim>\<open>elapsed_time >= 60\<close> is \<open>60000000 \<le> elapsed_time\<close>. The result is the
  new state and the time slept: \<open>None\<close> when the call returns without blocking.
\<close>

definition check_and_wait :: "int \<Rightarrow> int \<Rightarrow> int \<Rightarrow> TokenManager \<Rightarrow> TokenManager \<times> int option" where
  "check_and_wait current_time woke_time estimated_response_tokens self =
     (let elapsed_time = current_time - start_time self
      in if 60000000 \<le> elapsed_time
         then (self\<lparr>tokens_used := 0, start_time := current_time\<rparr>, None)
         else if token_limit_threshold self \<le> tokens_used self + estimated_response_tokens
         then (let wait_time = 60000000 - elapsed_time
               in if 0 < wait_time
                  then (self\<lparr>tokens_used := 0, start_time := woke_time\<rparr>, Some wait_time)
                  else (self, None))
         else (self, None))"

text \<open>
  \<^verbatim>\<open>
  def add_tokens(self, tokens):
      self.tokens_used += tokens
      if self.tokens_used > self.max_tokens_per_minute:
          self.tokens_used = self.max_tokens_per_minute
  \<close>
\<close>

definition add_tokens :: "int \<Rightarrow> TokenManager \<Rightarrow> TokenManager" where
  "add_tokens tokens self =
     (let self1 = self\<lparr>tokens_used := tokens_used self + tokens\<rparr>
      in if max_tokens_per_minute self1 < tokens_used self1
         then self1\<lparr>tokens_used := max_tokens_per_minute self1\<rparr>
         else self1)"

text \<open>
  \<^verbatim>\<open>
  def set_continuation_needed(self, content):
      self.continuation_needed = True
      self.last_generated_content = content
  \<close>
\<close>

definition set_continuation_needed :: "string \<Rightarrow> TokenManager \<Rightarrow> TokenManager" where
  "set_continuation_needed content self =
     self\<lparr>continuation_needed := True, last_generated_content := content\<rparr>"

text \<open>
  A sequence of calls on one \<^verbatim>\<open>TokenManager\<close>: each reserve carries its two clock
  readings and its estimate, each commit its token count.
\<close>

datatype call = Reserve int int int | Commit int

fun run_call :: "TokenManager \<Rightarrow> call \<Rightarrow> TokenManager" where
  "run_call self (Reserve current_time woke_time est) =
     fst (check_and_wait current_time woke_time est self)"
| "run_call self (Commit tokens) = add_tokens tokens self"

definition run_calls :: "TokenManager \<Rightarrow> call list \<Rightarrow> TokenManager" where
  "run_calls self calls = foldl run_call self calls"

section \<open>The values of json.loads\<close>

text \<open>
  A decoded JSON document is \<^verbatim>\<open>None\<close>, a \<^verbatim>\<open>bool\<close>, an \<^verbatim>\<open>int\<close>, a \<^verbatim>\<open>str\<close>, a \<^verbatim>\<open>list\<close>
  or a \<^verbatim>\<open>dict\<close>. A \<^verbatim>\<open>dict\<close> keeps its keys in insertion order: it is an association list
  with one entry for each key. The decoder only produces \<^verbatim>\<open>str\<close> keys, but
  \<^verbatim>\<open>dict.update\<close> with a list of pairs can insert an \<^verbatim>\<open>int\<close>, a \<^verbatim>\<open>bool\<close> or \<^verbatim>\<open>None\<close>
  as a key, so keys have a type of their own.
\<close>

datatype pykey = KStr string | KInt int | KBool bool | KNone

datatype json =
    JNull
  | JBool bool
  | JInt int
  | JStr string
  | JList "json list"
  | JDict "(pykey \<times> json) list"

type_synonym pydict = "(pykey \<times> json) list"

text \<open>
  Two keys are the same key of a \<^verbatim>\<open>dict\<close> when they are equal in Python:
  \<^verbatim>\<open>True == 1\<close> and \<^verbatim>\<open>False == 0\<close>.
\<close>

fun key_norm :: "pykey \<Rightarrow> pykey" where
  "key_norm (KBool b) = KInt (if b then 1 else 0)"
| "key_norm k = k"

definition key_eq :: "pykey \<Rightarrow> pykey \<Rightarrow> bool" where
  "key_eq a b = (key_norm a = key_norm b)"

fun dict_lookup :: "pykey \<Rightarrow> pydict \<Rightarrow> json option" where
  "dict_lookup k [] = None"
| "dict_lookup k ((k', v) # d) = (if key_eq k k' then Some v else dict_lookup k d)"

text \<open>
  \<^verbatim>\<open>d[k] = v\<close>: an entry with an equal key keeps its place and its key object and
  takes the new value; a new key goes to the end.
\<close>

fun dict_set :: "pykey \<Rightarrow> json \<Rightarrow> pydict \<Rightarrow> pydict" where
  "dict_set k v [] = [(k, v)]"
| "dict_set k v ((k', v') # d) =
     (if key_eq k k' then (k', v) # d else (k', v') # dict_set k v d)"

text \<open>\<^verbatim>\<open>d.get(k, default)\<close> on a \<^verbatim>\<open>dict\<close>.\<close>

definition dict_get :: "pydict \<Rightarrow> pykey \<Rightarrow> json \<Rightarrow> json" where
  "dict_get d k dflt = (case dict_lookup k d of Some v \<Rightarrow> v | None \<Rightarrow> dflt)"

text \<open>The truth value of a Python object, as \<^verbatim>\<open>if x\<close> and \<^verbatim>\<open>x and y\<close> test it.\<close>

fun py_truthy :: "json \<Rightarrow> bool" where
  "py_truthy JNull = False"
| "py_truthy (JBool b) = b"
| "py_truthy (JInt i) = (i \<noteq> 0)"
| "py_truthy (JStr s) = (s \<noteq> [])"
| "py_truthy (JList xs) = (xs \<noteq> [])"
| "py_truthy (JDict d) = (d \<noteq> [])"

fun is_dict :: "json \<Rightarrow> bool" where
  "is_dict (JDict d) = True"
| "is_dict _ = False"

text \<open>
  \<^verbatim>\<open>k in x\<close> for a \<^verbatim>\<open>str\<close> \<open>k\<close>: a key of a \<^verbatim>\<open>dict\<close>, an element of a \<^verbatim>\<open>list\<close>, a
  substring of a \<^verbatim>\<open>str\<close>; \<^verbatim>\<open>TypeError\<close> on \<^verbatim>\<open>None\<close>, \<^verbatim>\<open>bool\<close> and \<^verbatim>\<open>int\<close>, which are
  not iterable.
\<close>

fun py_contains_str :: "string \<Rightarrow> json \<Rightarrow> exn + bool" where
  "py_contains_str k (JDict d) = Inr (dict_lookup (KStr k) d \<noteq> None)"
| "py_contains_str k (JList xs) = Inr (JStr k \<in> set xs)"
| "py_contains_str k (JStr s) = Inr (py_in_str k s)"
| "py_contains_str k _ = Inl TypeError"

text \<open>
  \<^verbatim>\<open>x[k]\<close> for a \<^verbatim>\<open>str\<close> \<open>k\<close>: the value of a \<^verbatim>\<open>dict\<close> (\<^verbatim>\<open>KeyError\<close> when the key is
  missing); \<^verbatim>\<open>TypeError\<close> on everything else (a \<^verbatim>\<open>list\<close> and a \<^verbatim>\<open>str\<close> want integer
  indices, the others cannot be subscripted).
\<close>

fun py_getitem_str :: "string \<Rightarrow> json \<Rightarrow> exn + json" where
  "py_getitem_str k (JDict d) =
     (case dict_lookup (KStr k) d of Some v \<Rightarrow> Inr v | None \<Rightarrow> Inl KeyError)"
| "py_getitem_str k _ = Inl TypeError"

text \<open>
  A value as a key of a \<^verbatim>\<open>dict\<close>; a \<^verbatim>\<open>list\<close> and a \<^verbatim>\<open>dict\<close> are unhashable.
\<close>

fun key_of :: "json \<Rightarrow> pykey option" where
  "key_of (JStr s) = Some (KStr s)"
| "key_of (JInt i) = Some (KInt i)"
| "key_of (JBool b) = Some (KBool b)"
| "key_of JNull = Some KNone"
| "key_of _ = None"

fun json_of_key :: "pykey \<Rightarrow> json" where
  "json_of_key (KStr s) = JStr s"
| "json_of_key (KInt i) = JInt i"
| "json_of_key (KBool b) = JBool b"
| "json_of_key KNone = JNull"

text \<open>
  \<^verbatim>\<open>d.update(other)\<close>. A \<^verbatim>\<open>dict\<close> argument is laid over \<open>d\<close> entry by entry. Any other
  argument is iterated as a sequence of key and value pairs: each element is turned into
  a sequence (a \<^verbatim>\<open>list\<close> is itself, a \<^verbatim>\<open>str\<close> its characters, a \<^verbatim>\<open>dict\<close> its keys;
  \<^verbatim>\<open>TypeError\<close> otherwise) that must have length 2 (\<^verbatim>\<open>ValueError\<close> otherwise) and whose
  first element must be hashable (\<^verbatim>\<open>TypeError\<close> otherwise).
\<close>

fun update_pair :: "json \<Rightarrow> exn + (pykey \<times> json)" where
  "update_pair (JList [k, v]) =
     (case key_of k of Some key \<Rightarrow> Inr (key, v) | None \<Rightarrow> Inl TypeError)"
| "update_pair (JList _) = Inl ValueError"
| "update_pair (JStr [a, b]) = Inr (KStr [a], JStr [b])"
| "update_pair (JStr _) = Inl ValueError"
| "update_pair (JDict [(k1, _), (k2, _)]) = Inr (k1, json_of_key k2)"
| "update_pair (JDict _) = Inl ValueError"
| "update_pair _ = Inl TypeError"

fun update_pairs :: "pydict \<Rightarrow> json list \<Rightarrow> exn + pydict" where
  "update_pairs d [] = Inr d"
| "update_pairs d (x # xs) =
     (case update_pair x of
        Inl e \<Rightarrow> Inl e
      | Inr (k, v) \<Rightarrow> update_pairs (dict_set k v d) xs)"

fun dict_update :: "pydict \<Rightarrow> json \<Rightarrow> exn + pydict" where
  "dict_update d (JDict other) = Inr (foldl (\<lambda>acc (k, v). dict_set k v acc) d other)"
| "dict_update d (JList xs) = update_pairs d xs"
| "dict_update d (JStr s) = (if s = [] then Inr d else Inl ValueError)"
| "dict_update d _ = Inl TypeError"

section \<open>Decimal and hexadecimal digits\<close>

definition digit_char :: "nat \<Rightarrow> char" where
  "digit_char n = ''0123456789abcdef'' ! (n mod 16)"

fun nat_digits :: "nat \<Rightarrow> string" where
  "nat_digits n =
     (if n < 10 then [digit_char n] else nat_digits (n div 10) @ [digit_char (n mod 10)])"

declare nat_digits.simps [simp del]

text \<open>\<^verbatim>\<open>str(i)\<close> for an \<^verbatim>\<open>int\<close>.\<close>

definition int_str :: "int \<Rightarrow> string" where
  "int_str i = (if i < 0 then CHR ''-'' # nat_digits (nat (- i)) else nat_digits (nat i))"

definition digit_val :: "char \<Rightarrow> nat option" where
  "digit_val c = map_of (zip ''0123456789'' [0, 1, 2, 3, 4, 5, 6, 7, 8, 9]) c"

definition hex_val :: "char \<Rightarrow> nat option" where
  "hex_val c =
     map_of (zip ''0123456789abcdefABCDEF''
                 [0, 1, 2, 3, 4, 5, 6, 7, 8, 9, 10, 11, 12, 13, 14, 15, 10, 11, 12, 13, 14, 15]) c"

text \<open>\<^verbatim>\<open>sep.join(xs)\<close>.\<close>

fun py_join :: "string \<Rightarrow> string list \<Rightarrow> string" where
  "py_join sep [] = []"
| "py_join sep [x] = x"
| "py_join sep (x # y # ys) = x @ sep @ py_join sep (y # ys)"

section \<open>A decoder for JSON text\<close>

text \<open>
  \<^verbatim>\<open>json.loads\<close> belongs to Python's library. The functions of the repository take the
  decoder as a parameter \<open>loads\<close>, where \<open>loads s = None\<close> stands for
  \<^verbatim>\<open>json.JSONDecodeError\<close>, and their general properties hold for every decoder.

  \<open>json_loads\<close> below is the decoder that the concrete documents of this development
  are run with. It follows the grammar that \<^verbatim>\<open>json.loads\<close> accepts on the documents
  without floating-point numbers: objects, arrays, strings with the escapes
  \<^verbatim>\<open>\" \\ \/ \b \f \n \r \t\<close> and \<^verbatim>\<open>\u00XX\<close>, integers, \<^verbatim>\<open>true\<close>, \<^verbatim>\<open>false\<close>, \<^verbatim>\<open>null\<close>, with
  blanks, tabs, line feeds and carriage returns between the tokens. An object with a
  repeated key keeps the place of the first occurrence and the value of the last.
  Numbers with a fraction or an exponent, \<^verbatim>\<open>NaN\<close>, \<^verbatim>\<open>Infinity\<close> and escapes of code points
  beyond U+00FF are not covered: \<open>json_loads\<close> answers \<open>None\<close> on them, which says
  nothing about \<^verbatim>\<open>json.loads\<close> there.

  The text is first cut into tokens, one character at a time.
\<close>

datatype token =
    TLBrace | TRBrace | TLBrack | TRBrack | TComma | TColon
  | TStr string | TInt int | TTrue | TFalse | TNull

datatype lexstate =
    LDefault
  | LMinus
  | LNum bool nat
  | LWord string token
  | LStr string
  | LEsc string
  | LUni string nat nat

text \<open>
  The states: between tokens; after a minus sign; inside an integer (its sign and the
  digits read); inside one of the three words (the characters still expected); inside a
  string (the characters read, last first); after a backslash; inside \<^verbatim>\<open>\uXXXX\<close> (the
  number of hexadecimal digits read and their value).
\<close>

definition json_space :: "char \<Rightarrow> bool" where
  "json_space c = (c = CHR '' '' \<or> c = CHR 0x09 \<or> c = CHR 0x0A \<or> c = CHR 0x0D)"

definition lex_start :: "char \<Rightarrow> (lexstate \<times> token list) option" where
  "lex_start c =
     (if json_space c then Some (LDefault, [])
      else if c = CHR ''{'' then Some (LDefault, [TLBrace])
      else if c = CHR ''}'' then Some (LDefault, [TRBrace])
      else if c = CHR ''['' then Some (LDefault, [TLBrack])
      else if c = CHR '']'' then Some (LDefault, [TRBrack])
      else if c = CHR '','' then Some (LDefault, [TComma])
      else if c = CHR '':'' then Some (LDefault, [TColon])
      else if c = CHR 0x22 then Some (LStr [], [])
      else if c = CHR ''-'' then Some (LMinus, [])
      else if c = CHR ''0'' then Some (LDefault, [TInt 0])
      else if c = CHR ''t'' then Some (LWord ''rue'' TTrue, [])
      else if c = CHR ''f'' then Some (LWord ''alse'' TFalse, [])
      else if c = CHR ''n'' then Some (LWord ''ull'' TNull, [])
      else (case digit_val c of Some d \<Rightarrow> Some (LNum False d, []) | None \<Rightarrow> None))"

definition int_token :: "bool \<Rightarrow> nat \<Rightarrow> token" where
  "int_token neg n = TInt (if neg then - int n else int n)"

definition unescape :: "char \<Rightarrow> char option" where
  "unescape c =
     map_of [(CHR 0x22, CHR 0x22), (CHR 0x5C, CHR 0x5C), (CHR ''/'', CHR ''/''),
             (CHR ''b'', CHR 0x08), (CHR ''f'', CHR 0x0C), (CHR ''n'', CHR 0x0A),
             (CHR ''r'', CHR 0x0D), (CHR ''t'', CHR 0x09)] c"

fun lex_step :: "lexstate \<Rightarrow> char \<Rightarrow> (lexstate \<times> token list) option" where
  "lex_step LDefault c = lex_start c"
| "lex_step LMinus c =
     (if c = CHR ''0'' then Some (LDefault, [TInt 0])
      else (case digit_val c of Some d \<Rightarrow> Some (LNum True d, []) | None \<Rightarrow> None))"
| "lex_step (LNum neg n) c =
     (case digit_val c of
        Some d \<Rightarrow> Some (LNum neg (10 * n + d), [])
      | None \<Rightarrow>
          (case lex_start c of
             None \<Rightarrow> None
           | Some (s, ts) \<Rightarrow> Some (s, ts @ [int_token neg n])))"
| "lex_step (LWord [] t) c = None"
| "lex_step (LWord (r # rs) t) c =
     (if c \<noteq> r then None
      else if rs = [] then Some (LDefault, [t])
      else Some (LWord rs t, []))"
| "lex_step (LStr s) c =
     (if c = CHR 0x22 then Some (LDefault, [TStr (rev s)])
      else if c = CHR 0x5C then Some (LEsc s, [])
      else if (of_char c :: nat) < 32 then None
      else Some (LStr (c # s), []))"
| "lex_step (LEsc s) c =
     (if c = CHR ''u'' then Some (LUni s 0 0, [])
      else (case unescape c of Some e \<Rightarrow> Some (LStr (e # s), []) | None \<Rightarrow> None))"
| "lex_step (LUni s k n) c =
     (case hex_val c of
        None \<Rightarrow> None
      | Some h \<Rightarrow>
          (if k < 3 then Some (LUni s (Suc k) (16 * n + h), [])
           else if 16 * n + h < 256 then Some (LStr (char_of (16 * n + h) # s), [])
           else None))"

text \<open>
  Tokens are collected last first. At the end of the text an integer in progress is
  complete; a string, an escape, a word or a lone minus sign in progress is an error.
\<close>

fun lex :: "lexstate \<Rightarrow> token list \<Rightarrow> string \<Rightarrow> token list option" where
  "lex s acc [] =
     (case s of
        LDefault \<Rightarrow> Some (rev acc)
      | LNum neg n \<Rightarrow> Some (rev (int_token neg n # acc))
      | _ \<Rightarrow> None)"
| "lex s acc (c # cs) =
     (case lex_step s c of
        None \<Rightarrow> None
      | Some (s', ts) \<Rightarrow> lex s' (ts @ acc) cs)"

text \<open>
  The tokens are then read by a machine with a stack of the arrays and objects that are
  still open: an array with its elements so far (last first), an object with its entries
  so far and the key whose value is being read.
\<close>

datatype frame = FList "json list" | FDict pydict "string option"

datatype pstate = PValue | PValueOrEnd | PKeyOrEnd | PKey | PColon | PCommaOrEnd | PDone json

fun push_value :: "json \<Rightarrow> frame list \<Rightarrow> (pstate \<times> frame list) option" where
  "push_value v [] = Some (PDone v, [])"
| "push_value v (FList acc # st) = Some (PCommaOrEnd, FList (v # acc) # st)"
| "push_value v (FDict d (Some k) # st) = Some (PCommaOrEnd, FDict (dict_set (KStr k) v d) None # st)"
| "push_value v (FDict d None # st) = None"

fun open_or_scalar :: "token \<Rightarrow> frame list \<Rightarrow> (pstate \<times> frame list) option" where
  "open_or_scalar TLBrace st = Some (PKeyOrEnd, FDict [] None # st)"
| "open_or_scalar TLBrack st = Some (PValueOrEnd, FList [] # st)"
| "open_or_scalar (TStr s) st = push_value (JStr s) st"
| "open_or_scalar (TInt i) st = push_value (JInt i) st"
| "open_or_scalar TTrue st = push_value (JBool True) st"
| "open_or_scalar TFalse st = push_value (JBool False) st"
| "open_or_scalar TNull st = push_value JNull st"
| "open_or_scalar _ st = None"

fun close_list :: "frame list \<Rightarrow> (pstate \<times> frame list) option" where
  "close_list (FList acc # st) = push_value (JList (rev acc)) st"
| "close_list _ = None"

fun close_dict :: "frame list \<Rightarrow> (pstate \<times> frame list) option" where
  "close_dict (FDict d None # st) = push_value (JDict d) st"
| "close_dict _ = None"

fun read_key :: "token \<Rightarrow> frame list \<Rightarrow> (pstate \<times> frame list) option" where
  "read_key (TStr k) (FDict d None # st) = Some (PColon, FDict d (Some k) # st)"
| "read_key _ _ = None"

fun parse_step :: "pstate \<Rightarrow> frame list \<Rightarrow> token \<Rightarrow> (pstate \<times> frame list) option" where
  "parse_step PValue st t = open_or_scalar t st"
| "parse_step PValueOrEnd st t = (if t = TRBrack then close_list st else open_or_scalar t st)"
| "parse_step PKeyOrEnd st t = (if t = TRBrace then close_dict st else read_key t st)"
| "parse_step PKey st t = read_key t st"
| "parse_step PColon st t = (if t = TColon then Some (PValue, st) else None)"
| "parse_step PCommaOrEnd st t =
     (case st of
        FList acc # _ \<Rightarrow>
          (if t = TComma then Some (PValue, st)
           else if t = TRBrack then close_list st
           else None)
      | FDict d k # _ \<Rightarrow>
          (if t = TComma then Some (PKey, st)
           else if t = TRBrace then close_dict st
           else None)
      | [] \<Rightarrow> None)"
| "parse_step (PDone v) st t = None"

fun parse :: "pstate \<Rightarrow> frame list \<Rightarrow> token list \<Rightarrow> json option" where
  "parse s st [] = (case s of PDone v \<Rightarrow> Some v | _ \<Rightarrow> None)"
| "parse s st (t # ts) =
     (case parse_step s st t of
        None \<Rightarrow> None
      | Some (s', st') \<Rightarrow> parse s' st' ts)"

definition json_loads :: "string \<Rightarrow> json option" where
  "json_loads s =
     (case lex LDefault [] s of
        None \<Rightarrow> None
      | Some ts \<Rightarrow> parse PValue [] ts)"

section \<open>The encoder json.dumps\<close>

text \<open>
  \<^verbatim>\<open>json.dumps(obj)\<close> and \<^verbatim>\<open>json.dumps(obj, indent=2)\<close> with the default
  \<^verbatim>\<open>ensure_ascii\<close>: inside a string, the quote, the backslash and the five named control
  characters are escaped by a backslash, every other character outside the printable
  ASCII range becomes \<^verbatim>\<open>\u00xx\<close>. A key that is not a \<^verbatim>\<open>str\<close> is written as the string
  of its JSON text.
\<close>

definition escape_char :: "char \<Rightarrow> string" where
  "escape_char c =
     (if c = CHR 0x22 then [CHR 0x5C, CHR 0x22]
      else if c = CHR 0x5C then [CHR 0x5C, CHR 0x5C]
      else if c = CHR 0x0A then [CHR 0x5C, CHR ''n'']
      else if c = CHR 0x0D then [CHR 0x5C, CHR ''r'']
      else if c = CHR 0x09 then [CHR 0x5C, CHR ''t'']
      else if c = CHR 0x08 then [CHR 0x5C, CHR ''b'']
      else if c = CHR 0x0C then [CHR 0x5C, CHR ''f'']
      else if 32 \<le> (of_char c :: nat) \<and> (of_char c :: nat) \<le> 126 then [c]
      else [CHR 0x5C, CHR ''u'', CHR ''0'', CHR ''0'',
            digit_char (of_char c div 16), digit_char (of_char c mod 16)])"

definition encode_string :: "string \<Rightarrow> string" where
  "encode_string s = [CHR 0x22] @ concat (map escape_char s) @ [CHR 0x22]"

fun key_text :: "pykey \<Rightarrow> string" where
  "key_text (KStr s) = s"
| "key_text (KInt i) = int_str i"
| "key_text (KBool b) = (if b then ''true'' else ''false'')"
| "key_text KNone = ''null''"

text \<open>
  \<open>newline_indent ind level\<close> is the line break and the indentation that precede an item
  at nesting depth \<open>level\<close>; without \<open>indent\<close> there is none and the items are separated
  by a comma and a blank.
\<close>

definition newline_indent :: "nat option \<Rightarrow> nat \<Rightarrow> string" where
  "newline_indent ind level =
     (case ind of None \<Rightarrow> [] | Some n \<Rightarrow> CHR 0x0A # replicate (n * level) (CHR '' ''))"

definition item_separator :: "nat option \<Rightarrow> nat \<Rightarrow> string" where
  "item_separator ind level =
     (case ind of None \<Rightarrow> '', '' | Some n \<Rightarrow> '','' @ newline_indent ind level)"

fun dumps_at :: "nat option \<Rightarrow> nat \<Rightarrow> json \<Rightarrow> string" where
  "dumps_at ind level JNull = ''null''"
| "dumps_at ind level (JBool b) = (if b then ''true'' else ''false'')"
| "dumps_at ind level (JInt i) = int_str i"
| "dumps_at ind level (JStr s) = encode_string s"
| "dumps_at ind level (JList xs) =
     (if xs = [] then ''[]''
      else ''['' @ newline_indent ind (Suc level)
           @ py_join (item_separator ind (Suc level)) (map (dumps_at ind (Suc level)) xs)
           @ newline_indent ind level @ '']'')"
| "dumps_at ind level (JDict d) =
     (if d = [] then ''{}''
      else ''{'' @ newline_indent ind (Suc level)
           @ py_join (item_separator ind (Suc level))
               (map (\<lambda>(k, v). encode_string (key_text k) @ '': '' @ dumps_at ind (Suc level) v) d)
           @ newline_indent ind level @ ''}'')"

definition json_dumps :: "nat option \<Rightarrow> json \<Rightarrow> string" where
  "json_dumps ind v = dumps_at ind 0 v"

section \<open>str() and repr()\<close>

text \<open>
  \<^verbatim>\<open>repr\<close> of a \<^verbatim>\<open>str\<close>: in single quotes, or in double quotes when the string has a
  single quote and no double quote; the backslash and the chosen quote are escaped by a
  backslash, tab, line feed and carriage return are written \<^verbatim>\<open>\t \n \r\<close>, and the other
  characters that are not printable (below U+0020, U+007F..U+00A0, U+00AD) are written
  \<^verbatim>\<open>\xhh\<close>.
\<close>

definition repr_quote :: "string \<Rightarrow> char" where
  "repr_quote s = (if CHR 0x27 \<in> set s \<and> CHR 0x22 \<notin> set s then CHR 0x22 else CHR 0x27)"

definition repr_char :: "char \<Rightarrow> char \<Rightarrow> string" where
  "repr_char q c =
     (let n = (of_char c :: nat)
      in if c = q \<or> c = CHR 0x5C then [CHR 0x5C, c]
         else if c = CHR 0x09 then [CHR 0x5C, CHR ''t'']
         else if c = CHR 0x0A then [CHR 0x5C, CHR ''n'']
         else if c = CHR 0x0D then [CHR 0x5C, CHR ''r'']
         else if n < 32 \<or> (127 \<le> n \<and> n \<le> 160) \<or> n = 173
         then [CHR 0x5C, CHR ''x'', digit_char (n div 16), digit_char (n mod 16)]
         else [c])"

definition repr_str :: "string \<Rightarrow> string" where
  "repr_str s = (let q = repr_quote s in [q] @ concat (map (repr_char q) s) @ [q])"

fun repr_key :: "pykey \<Rightarrow> string" where
  "repr_key (KStr s) = repr_str s"
| "repr_key (KInt i) = int_str i"
| "repr_key (KBool b) = (if b then ''True'' else ''False'')"
| "repr_key KNone = ''None''"

fun py_repr :: "json \<Rightarrow> string" where
  "py_repr JNull = ''None''"
| "py_repr (JBool b) = (if b then ''True'' else ''False'')"
| "py_repr (JInt i) = int_str i"
| "py_repr (JStr s) = repr_str s"
| "py_repr (JList xs) = ''['' @ py_join '', '' (map py_repr xs) @ '']''"
| "py_repr (JDict d) =
     ''{'' @ py_join '', '' (map (\<lambda>(k, v). repr_key k @ '': '' @ py_repr v) d) @ ''}''"

fun py_str :: "json \<Rightarrow> string" where
  "py_str (JStr s) = s"
| "py_str v = py_repr v"

section \<open>functions.py: is_json_complete and extract_partial_json\<close>

text \<open>
  \<^verbatim>\<open>
  def is_json_complete(text):
      try:
          json.loads(text)
          return True
      except json.JSONDecodeError:
          return False
  \<close>
\<close>

definition is_json_complete :: "(string \<Rightarrow> json option) \<Rightarrow> string \<Rightarrow> bool" where
  "is_json_complete loads text = (case loads text of Some v \<Rightarrow> True | None \<Rightarrow> False)"

text \<open>
  \<^verbatim>\<open>
  def extract_partial_json(text):
      try:
          return json.loads(text), True
      except json.JSONDecodeError:
          text = text.strip()
          if text.endswith(','):
              text = text[:-1]
          open_braces = text.count('{') - text.count('}')
          open_brackets = text.count('[') - text.count(']')
          for _ in range(open_brackets):
              text += ']'
          for _ in range(open_braces):
              text += '}'
          try:
              return json.loads(text), False
          except json.JSONDecodeError:
              return None, False
  \<close>
  \<open>close_text\<close> is the text that the second \<^verbatim>\<open>json.loads\<close> receives. \<^verbatim>\<open>range(n)\<close> is empty
  for a negative \<open>n\<close>, as \<open>nat n\<close> is 0. The \<^verbatim>\<open>None\<close> of a failed repair is the same
  object as a decoded \<^verbatim>\<open>null\<close>: \<open>JNull\<close>.
\<close>

definition close_text :: "string \<Rightarrow> string" where
  "close_text text0 =
     (let text1 = py_strip text0;
          text2 = (if endswith text1 '','' then butlast text1 else text1);
          open_braces = py_count text2 (CHR ''{'') - py_count text2 (CHR ''}'');
          open_brackets = py_count text2 (CHR ''['') - py_count text2 (CHR '']'')
      in text2 @ replicate (nat open_brackets) (CHR '']'')
               @ replicate (nat open_braces) (CHR ''}''))"

definition extract_partial_json :: "(string \<Rightarrow> json option) \<Rightarrow> string \<Rightarrow> json \<times> bool" where
  "extract_partial_json loads text =
     (case loads text of
        Some v \<Rightarrow> (v, True)
      | None \<Rightarrow>
          (case loads (close_text text) of
             Some v \<Rightarrow> (v, False)
           | None \<Rightarrow> (JNull, False)))"

section \<open>functions.py: create_structure_only\<close>

text \<open>
  \<^verbatim>\<open>
  def create_structure_only(project_data):
      if not isinstance(project_data, dict):
          return project_data
      structure = {
          "project_name": project_data.get("project_name", "unknown"),
          "framework": project_data.get("framework", "React"),
          "files": {}
      }
      if "files" in project_data and isinstance(project_data["files"], dict):
          for file_path, content in project_data["files"].items():
              file_type = get_file_type(file_path)
              file_size = len(str(content))
              preview = str(content)[:100] if content else ""
              structure["files"][file_path] = {
                  "type": file_type, "size": file_size, "preview": preview
              }
      return structure
  \<close>
  \<open>summarize_files\<close> is the loop, with \<^verbatim>\<open>structure["files"]\<close> as its accumulator. A key
  that is not a \<^verbatim>\<open>str\<close> has no \<^verbatim>\<open>split\<close>: \<^verbatim>\<open>AttributeError\<close>.
\<close>

definition file_summary :: "string \<Rightarrow> json \<Rightarrow> json" where
  "file_summary file_type content =
     (let file_size = int (length (py_str content));
          preview = (if py_truthy content then take 100 (py_str content) else '''')
      in JDict [(KStr ''type'', JStr file_type),
                (KStr ''size'', JInt file_size),
                (KStr ''preview'', JStr preview)])"

fun summarize_files :: "pydict \<Rightarrow> pydict \<Rightarrow> exn + pydict" where
  "summarize_files [] acc = Inr acc"
| "summarize_files ((file_path, content) # rest) acc =
     (case file_path of
        KStr p \<Rightarrow>
          (case get_file_type p of
             Inl e \<Rightarrow> Inl e
           | Inr file_type \<Rightarrow>
               summarize_files rest (dict_set file_path (file_summary file_type content) acc))
      | _ \<Rightarrow> Inl AttributeError)"

definition create_structure_only :: "json \<Rightarrow> exn + json" where
  "create_structure_only project_data =
     (case project_data of
        JDict d \<Rightarrow>
          (let name = dict_get d (KStr ''project_name'') (JStr ''unknown'');
               fw = dict_get d (KStr ''framework'') (JStr ''React'')
           in case (case dict_lookup (KStr ''files'') d of
                      Some (JDict fs) \<Rightarrow> summarize_files fs []
                    | _ \<Rightarrow> Inr []) of
                Inl e \<Rightarrow> Inl e
              | Inr files \<Rightarrow>
                  Inr (JDict [(KStr ''project_name'', name),
                              (KStr ''framework'', fw),
                              (KStr ''files'', JDict files)]))
      | _ \<Rightarrow> Inr project_data)"

section \<open>models.py: ProjectContext\<close>

record ProjectContext =
  project_structure :: pydict
  generated_files :: pydict
  project_name :: string
  framework :: string
  partial_generation :: bool
  current_file_being_generated :: string
  error_files :: "json list"
  original_files :: pydict

definition ProjectContext_init :: ProjectContext where
  "ProjectContext_init =
     \<lparr>project_structure = [], generated_files = [], project_name = '''', framework = '''',
      partial_generation = False, current_file_being_generated = '''',
      error_files = [], original_files = []\<rparr>"

text \<open>
  \<^verbatim>\<open>
  def set_original_files(self, files_dict):
      self.original_files = files_dict.copy()

  def set_partial_generation(self, file_path, partial_content):
      self.partial_generation = True
      self.current_file_being_generated = file_path
      self.generated_files[file_path] = partial_content
  \<close>
\<close>

definition set_original_files :: "pydict \<Rightarrow> ProjectContext \<Rightarrow> ProjectContext" where
  "set_original_files files_dict self = self\<lparr>original_files := files_dict\<rparr>"

definition set_partial_generation :: "string \<Rightarrow> string \<Rightarrow> ProjectContext \<Rightarrow> ProjectContext" where
  "set_partial_generation file_path partial_content self =
     self\<lparr>partial_generation := True,
          current_file_being_generated := file_path,
          generated_files := dict_set (KStr file_path) (JStr partial_content) (generated_files self)\<rparr>"

section \<open>functions.py: handle_error_resolution\<close>

text \<open>
  The \<^verbatim>\<open>code\<close> argument is a \<^verbatim>\<open>str\<close>, a \<^verbatim>\<open>dict\<close> or anything else.
\<close>

datatype code_arg = CodeStr string | CodeDict pydict | CodeOther

text \<open>
  Step 1 of the function, the body of its first \<^verbatim>\<open>try\<close>:
  \<^verbatim>\<open>
      if isinstance(code, str):
          full_project = json.loads(code)
      elif isinstance(code, dict):
          full_project = code
      else:
          full_project = {}
      if "files" in full_project and isinstance(full_project["files"], dict):
          project_context.set_original_files(full_project["files"])
      project_structure = create_structure_only(full_project)
      error_description = user_input
  \<close>
  It ends with the three local variables bound, or with an exception; the module's
  \<^verbatim>\<open>project_context\<close> is passed through.
\<close>

definition load_code :: "(string \<Rightarrow> json option) \<Rightarrow> code_arg \<Rightarrow> exn + json" where
  "load_code loads code =
     (case code of
        CodeStr s \<Rightarrow> (case loads s of Some v \<Rightarrow> Inr v | None \<Rightarrow> Inl JSONDecodeError)
      | CodeDict d \<Rightarrow> Inr (JDict d)
      | CodeOther \<Rightarrow> Inr (JDict []))"

text \<open>
  \<^verbatim>\<open>"files" in x and isinstance(x["files"], dict)\<close>: the \<^verbatim>\<open>dict\<close> under \<^verbatim>\<open>"files"\<close> when
  the test holds, \<open>None\<close> when it does not, and the exception when the test raises.
\<close>

definition files_dict_of :: "json \<Rightarrow> exn + pydict option" where
  "files_dict_of x =
     (case py_contains_str ''files'' x of
        Inl e \<Rightarrow> Inl e
      | Inr False \<Rightarrow> Inr None
      | Inr True \<Rightarrow>
          (case py_getitem_str ''files'' x of
             Inl e \<Rightarrow> Inl e
           | Inr (JDict fs) \<Rightarrow> Inr (Some fs)
           | Inr _ \<Rightarrow> Inr None))"

definition parse_project ::
  "(string \<Rightarrow> json option) \<Rightarrow> string \<Rightarrow> code_arg \<Rightarrow> ProjectContext
     \<Rightarrow> (exn + (json \<times> json \<times> string)) \<times> ProjectContext" where
  "parse_project loads user_input code pc =
     (case load_code loads code of
        Inl e \<Rightarrow> (Inl e, pc)
      | Inr full_project \<Rightarrow>
          (case files_dict_of full_project of
             Inl e \<Rightarrow> (Inl e, pc)
           | Inr fs \<Rightarrow>
               (let pc1 = (case fs of Some files \<Rightarrow> set_original_files files pc | None \<Rightarrow> pc)
                in case create_structure_only full_project of
                     Inl e \<Rightarrow> (Inl e, pc1)
                   | Inr structure \<Rightarrow>
                       (Inr (full_project, structure, user_input), pc1))))"

text \<open>\<^verbatim>\<open>len(x)\<close>: \<^verbatim>\<open>TypeError\<close> on \<^verbatim>\<open>None\<close>, \<^verbatim>\<open>bool\<close> and \<^verbatim>\<open>int\<close>.\<close>

fun py_len :: "json \<Rightarrow> exn + nat" where
  "py_len (JStr s) = Inr (length s)"
| "py_len (JList xs) = Inr (length xs)"
| "py_len (JDict d) = Inr (length d)"
| "py_len _ = Inl TypeError"

text \<open>
  The function up to the first worker call:
  \<^verbatim>\<open>
  async def handle_error_resolution(user_input, code):
      try:
          ... step 1 ...
      except (json.JSONDecodeError, TypeError) as e:
          full_project = {"project_name": "error-project", "framework": "React", "files": {}}
          project_structure = full_project
      print(f"Error Description: {error_description}")
      print(f"Full Project Files: {len(full_project.get('files', {}))}")
      ... steps 2 to 4 ...
  \<close>
  The handler binds \<^verbatim>\<open>full_project\<close> and \<^verbatim>\<open>project_structure\<close> but not
  \<^verbatim>\<open>error_description\<close>, which step 1 binds in its last line; reading a local variable
  that is not bound raises \<^verbatim>\<open>UnboundLocalError\<close>. \<open>error_description\<close> is therefore an
  option in the model. Steps 2 to 4 (the two worker calls and the merge of the fixed
  files) are the parameter \<open>steps_2_to_4\<close>, applied to the variables bound so far; they
  run only when the two \<^verbatim>\<open>print\<close> lines have returned.
\<close>

definition fallback_project :: json where
  "fallback_project =
     JDict [(KStr ''project_name'', JStr ''error-project''),
            (KStr ''framework'', JStr ''React''),
            (KStr ''files'', JDict [])]"

definition print_summary :: "string option \<Rightarrow> json \<Rightarrow> exn + string" where
  "print_summary error_description full_project =
     (case error_description of
        None \<Rightarrow> Inl UnboundLocalError
      | Some ed \<Rightarrow>
          (case full_project of
             JDict d \<Rightarrow>
               (case py_len (dict_get d (KStr ''files'') (JDict [])) of
                  Inl e \<Rightarrow> Inl e
                | Inr n \<Rightarrow> Inr ed)
           | _ \<Rightarrow> Inl AttributeError))"

definition handle_error_resolution ::
  "(string \<Rightarrow> json option)
     \<Rightarrow> (string \<Rightarrow> json \<Rightarrow> json \<Rightarrow> ProjectContext \<Rightarrow> (exn + 'r) \<times> ProjectContext)
     \<Rightarrow> string \<Rightarrow> code_arg \<Rightarrow> ProjectContext \<Rightarrow> (exn + 'r) \<times> ProjectContext" where
  "handle_error_resolution loads steps_2_to_4 user_input code pc =
     (case parse_project loads user_input code pc of
        (Inr (full_project, structure, error_description), pc1) \<Rightarrow>
          (case print_summary (Some error_description) full_project of
             Inl e \<Rightarrow> (Inl e, pc1)
           | Inr ed \<Rightarrow> steps_2_to_4 ed full_project structure pc1)
      | (Inl e, pc1) \<Rightarrow>
          (if e = JSONDecodeError \<or> e = TypeError
           then (case print_summary None fallback_project of
                   Inl e' \<Rightarrow> (Inl e', pc1)
                 | Inr ed \<Rightarrow> steps_2_to_4 ed fallback_project fallback_project pc1)
           else (Inl e, pc1)))"

section \<open>The model capability\<close>

text \<open>
  The workers are the agents of \<^verbatim>\<open>models.py\<close>. \<^verbatim>\<open>Runner.run_streamed(agent, input=...)\<close>
  and the loop over \<^verbatim>\<open>stream_events()\<close> belong to the agents library: a run is a function
  \<open>run\<close> from the agent and its input text to either the message of the exception that
  the stream raised, or the text pieces of its events in order (the results of
  \<^verbatim>\<open>extract_text_from_event\<close>).
\<close>

datatype agent =
    manager_agent
  | planner_agent
  | codegen_agent
  | continuation_agent
  | error_files_finder_agent
  | error_resolver_agent
  | modifier_files_finder_agent
  | modifier_agent

type_synonym runner = "agent \<Rightarrow> string \<Rightarrow> string + string list"

text \<open>
  \<^verbatim>\<open>
      full_output = ""
      async for event in stream_result.stream_events():
          text_piece = extract_text_from_event(event)
          if text_piece:
              full_output += text_piece
  \<close>
\<close>

definition accumulate :: "string list \<Rightarrow> string" where
  "accumulate pieces =
     foldl (\<lambda>full_output text_piece.
              if text_piece \<noteq> [] then full_output @ text_piece else full_output) [] pieces"

section \<open>functions.py: stream_codegen_async and run_agent_with_token_limit\<close>

text \<open>
  \<^verbatim>\<open>
  async def stream_codegen_async(agent, user_input):
      try:
          stream_result = Runner.run_streamed(agent, input=user_input)
          ... accumulate full_output ...
          return full_output
      except Exception as e:
          return f"Error: {str(e)}"
  \<close>
\<close>

definition stream_codegen_async :: "runner \<Rightarrow> agent \<Rightarrow> string \<Rightarrow> string" where
  "stream_codegen_async run ag user_input =
     (case run ag user_input of
        Inl msg \<Rightarrow> ''Error: '' @ msg
      | Inr pieces \<Rightarrow> accumulate pieces)"

text \<open>
  \<^verbatim>\<open>
  def count_tokens(self, text):
      try:
          if text is None: return 0
          if isinstance(text, dict): text = json.dumps(text)
          return len(self.tokenizer.encode(str(text)))
      except Exception:
          return max(1, len(str(text)) // 4)
  \<close>
  on a \<^verbatim>\<open>str\<close>. The tokenizer is the parameter \<open>encode\<close>: the number of tokens of a text,
  \<open>None\<close> when it raises.
\<close>

definition count_tokens :: "(string \<Rightarrow> nat option) \<Rightarrow> string \<Rightarrow> int" where
  "count_tokens encode text =
     (case encode text of
        Some n \<Rightarrow> int n
      | None \<Rightarrow> max 1 (int (length text) div 4))"

text \<open>
  What \<^verbatim>\<open>run_agent_with_token_limit\<close> returns: a \<^verbatim>\<open>ResultWrapper\<close> with its
  \<^verbatim>\<open>final_output\<close>, or the \<^verbatim>\<open>str\<close> of the \<^verbatim>\<open>except\<close> branch.
  \<^verbatim>\<open>
  async def run_agent_with_token_limit(agent, input_data, estimated_response_tokens=1000):
      input_tokens = token_manager.count_tokens(input_data)
      token_manager.check_and_wait(estimated_response_tokens)
      try:
          stream_result = Runner.run_streamed(agent, input=input_data)
          ... accumulate full_output ...
          output_tokens = token_manager.count_tokens(full_output)
          total_tokens = input_tokens + output_tokens
          token_manager.add_tokens(total_tokens)
          return ResultWrapper(stream_result, full_output)
      except Exception as e:
          return f"Error: {str(e)}"
  \<close>
\<close>

datatype agent_result = ResultWrapper string | ErrorText string

definition run_agent_with_token_limit ::
  "(string \<Rightarrow> nat option) \<Rightarrow> runner \<Rightarrow> int \<Rightarrow> int \<Rightarrow> agent \<Rightarrow> string \<Rightarrow> int
     \<Rightarrow> TokenManager \<Rightarrow> agent_result \<times> TokenManager" where
  "run_agent_with_token_limit encode run current_time woke_time ag input_data
       estimated_response_tokens tm =
     (let input_tokens = count_tokens encode input_data;
          tm1 = fst (check_and_wait current_time woke_time estimated_response_tokens tm)
      in case run ag input_data of
           Inl msg \<Rightarrow> (ErrorText (''Error: '' @ msg), tm1)
         | Inr pieces \<Rightarrow>
             (let full_output = accumulate pieces;
                  output_tokens = count_tokens encode full_output;
                  total_tokens = input_tokens + output_tokens
              in (ResultWrapper full_output, add_tokens total_tokens tm1)))"

section \<open>functions.py: stream_codegen_with_continuation\<close>

text \<open>
  The merge of the continuation, the body of the inner \<^verbatim>\<open>try\<close>:
  \<^verbatim>\<open>
      continuation_json, cont_complete = extract_partial_json(continuation_output)
      if continuation_json and "files" in continuation_json:
          if partial_json and "files" in partial_json:
              partial_json["files"].update(continuation_json["files"])
          full_output = json.dumps(partial_json, indent=2)
          generation_complete = True
  \<close>
  \<open>update_files\<close> is the innermost statement: it evaluates \<^verbatim>\<open>partial_json["files"]\<close>, takes
  its \<^verbatim>\<open>update\<close> method (only a \<^verbatim>\<open>dict\<close> has one: \<^verbatim>\<open>AttributeError\<close>), evaluates
  \<^verbatim>\<open>continuation_json["files"]\<close> and calls the method; the \<^verbatim>\<open>dict\<close> under \<^verbatim>\<open>"files"\<close> is
  changed in place. \<open>merge_continuation\<close> is the whole body: the exception that it
  raises, or \<open>None\<close> when \<^verbatim>\<open>full_output\<close> is not assigned, or the new \<^verbatim>\<open>partial_json\<close>
  that \<^verbatim>\<open>json.dumps\<close> receives.
\<close>

definition update_files :: "json \<Rightarrow> json \<Rightarrow> exn + json" where
  "update_files partial_json continuation_json =
     (case py_getitem_str ''files'' partial_json of
        Inl e \<Rightarrow> Inl e
      | Inr (JDict target) \<Rightarrow>
          (case py_getitem_str ''files'' continuation_json of
             Inl e \<Rightarrow> Inl e
           | Inr other \<Rightarrow>
               (case dict_update target other of
                  Inl e \<Rightarrow> Inl e
                | Inr merged \<Rightarrow>
                    (case partial_json of
                       JDict d \<Rightarrow> Inr (JDict (dict_set (KStr ''files'') (JDict merged) d))
                     | _ \<Rightarrow> Inl TypeError)))
      | Inr _ \<Rightarrow> Inl AttributeError)"

text \<open>\<^verbatim>\<open>x and "files" in x\<close> as a condition.\<close>

definition truthy_with_files :: "json \<Rightarrow> exn + bool" where
  "truthy_with_files x = (if py_truthy x then py_contains_str ''files'' x else Inr False)"

definition merge_continuation ::
  "(string \<Rightarrow> json option) \<Rightarrow> json \<Rightarrow> string \<Rightarrow> exn + json option" where
  "merge_continuation loads partial_json continuation_output =
     (let continuation_json = fst (extract_partial_json loads continuation_output)
      in case truthy_with_files continuation_json of
           Inl e \<Rightarrow> Inl e
         | Inr False \<Rightarrow> Inr None
         | Inr True \<Rightarrow>
             (case truthy_with_files partial_json of
                Inl e \<Rightarrow> Inl e
              | Inr False \<Rightarrow> Inr (Some partial_json)
              | Inr True \<Rightarrow>
                  (case update_files partial_json continuation_json of
                     Inl e \<Rightarrow> Inl e
                   | Inr merged \<Rightarrow> Inr (Some merged))))"

text \<open>
  \<^verbatim>\<open>
  async def stream_codegen_with_continuation(agent, user_input, max_tokens=7000):
      full_output = ""
      generation_complete = False
      try:
          stream_result = Runner.run_streamed(agent, input=user_input)
          ... accumulate full_output ...
          partial_json, is_complete = extract_partial_json(full_output)
          if not is_complete and partial_json:
              token_manager.set_continuation_needed(full_output)
              project_context.set_partial_generation("partial_project", full_output)
              continuation_input = {
                  "original_request": user_input,
                  "partial_content": full_output,
                  "partial_json": partial_json,
                  "instruction": "Continue completing the remaining files in the project structure"
              }
              continuation_output = await stream_codegen_async(continuation_agent,
                                                               json.dumps(continuation_input))
              try:
                  ... merge ...
              except Exception as e:
                  print(f"Error merging continuation: {e}")
          else:
              generation_complete = is_complete
          return full_output
      except Exception as e:
          return f"Error: {str(e)}"
  \<close>
  The function returns a \<^verbatim>\<open>str\<close> on every path; the module's \<^verbatim>\<open>token_manager\<close> and
  \<^verbatim>\<open>project_context\<close> are passed through. \<^verbatim>\<open>generation_complete\<close> only chooses a log
  line.
\<close>

definition continuation_input :: "string \<Rightarrow> string \<Rightarrow> json \<Rightarrow> json" where
  "continuation_input user_input full_output partial_json =
     JDict [(KStr ''original_request'', JStr user_input),
            (KStr ''partial_content'', JStr full_output),
            (KStr ''partial_json'', partial_json),
            (KStr ''instruction'',
               JStr ''Continue completing the remaining files in the project structure'')]"

definition stream_codegen_with_continuation ::
  "(string \<Rightarrow> json option) \<Rightarrow> runner \<Rightarrow> agent \<Rightarrow> string \<Rightarrow> TokenManager \<times> ProjectContext
     \<Rightarrow> string \<times> TokenManager \<times> ProjectContext" where
  "stream_codegen_with_continuation loads run ag user_input st =
     (case run ag user_input of
        Inl msg \<Rightarrow> (''Error: '' @ msg, st)
      | Inr pieces \<Rightarrow>
          (let full_output = accumulate pieces;
               (partial_json, is_complete) = extract_partial_json loads full_output
           in if \<not> is_complete \<and> py_truthy partial_json
              then (let st1 = (set_continuation_needed full_output (fst st),
                               set_partial_generation ''partial_project'' full_output (snd st));
                        continuation_output =
                          stream_codegen_async run continuation_agent
                            (json_dumps None (continuation_input user_input full_output partial_json))
                    in case merge_continuation loads partial_json continuation_output of
                         Inr (Some merged) \<Rightarrow> (json_dumps (Some 2) merged, st1)
                       | Inr None \<Rightarrow> (full_output, st1)
                       | Inl e \<Rightarrow> (full_output, st1))
              else (full_output, st)))"

section \<open>main_fastapi.py: get_manager_decision\<close>

text \<open>
  \<^verbatim>\<open>
  async def get_manager_decision(user_input: str) -> str:
      try:
          manager_result = await run_agent_with_token_limit(manager_agent, user_input, 100)
          task_type = manager_result.final_output.strip()
          try:
              manager_decision = json.loads(task_type)
              task = manager_decision.get("task", "")
          except:
              if "code_generation" in task_type:
                  task = "code_generation"
              elif "error_resolution" in task_type:
                  task = "error_resolution"
              elif "code_change" in task_type:
                  task = "code_change"
              elif "code_continuation" in task_type:
                  task = "code_continuation"
              else:
                  task = "code_generation"
          return task
      except Exception as e:
          raise HTTPException(status_code=500, detail=f"Manager decision failed: {str(e)}")
  \<close>
  \<open>manager_result\<close> is what the first line received from the worker call. A \<^verbatim>\<open>str\<close> has no
  \<^verbatim>\<open>final_output\<close>: the \<^verbatim>\<open>AttributeError\<close> reaches the outer handler. Only a \<^verbatim>\<open>dict\<close> has
  \<^verbatim>\<open>get\<close>: on any other decoded value the \<^verbatim>\<open>AttributeError\<close> reaches the bare
  \<^verbatim>\<open>except\<close>, as a decoding error does. The value returned is whatever
  \<^verbatim>\<open>get\<close> found, a Python value.
\<close>

datatype http_exception = HTTPException nat string

definition keyword_fallback :: "string \<Rightarrow> string" where
  "keyword_fallback task_type =
     (if py_in_str ''code_generation'' task_type then ''code_generation''
      else if py_in_str ''error_resolution'' task_type then ''error_resolution''
      else if py_in_str ''code_change'' task_type then ''code_change''
      else if py_in_str ''code_continuation'' task_type then ''code_continuation''
      else ''code_generation'')"

definition get_manager_decision ::
  "(string \<Rightarrow> json option) \<Rightarrow> agent_result \<Rightarrow> http_exception + json" where
  "get_manager_decision loads manager_result =
     (case manager_result of
        ErrorText s \<Rightarrow>
          Inl (HTTPException 500
                 (''Manager decision failed: '' @
                  [CHR 0x27] @ ''str'' @ [CHR 0x27] @ '' object has no attribute '' @
                  [CHR 0x27] @ ''final_output'' @ [CHR 0x27]))
      | ResultWrapper final_output \<Rightarrow>
          (let task_type = py_strip final_output
           in case loads task_type of
                Some (JDict manager_decision) \<Rightarrow>
                  Inr (dict_get manager_decision (KStr ''task'') (JStr ''''))
              | _ \<Rightarrow> Inr (JStr (keyword_fallback task_type))))"

text \<open>The four task kinds.\<close>

definition task_kinds :: "string list" where
  "task_kinds = [''code_generation'', ''error_resolution'', ''code_change'', ''code_continuation'']"

section \<open>Scripted runs\<close>

text \<open>
  A run of the model capability for the concrete scenarios below: the continuation
  worker emits the fragments \<open>continuation\<close>, every other worker the fragments
  \<open>primary\<close>, whatever the input is.
\<close>

definition scripted_run :: "string list \<Rightarrow> string list \<Rightarrow> runner" where
  "scripted_run primary continuation ag input_text =
     (if ag = continuation_agent then Inr continuation else Inr primary)"

section \<open>Properties of get_file_type\<close>

lemma py_split_not_Nil: "py_split c s \<noteq> []"
  by (induction s) (auto split: list.splits)

lemma py_split_no_separator: "c \<notin> set s \<Longrightarrow> py_split c s = [s]"
  by (induction s) auto

lemma py_last_total: "xs \<noteq> [] \<Longrightarrow> py_last xs = Inr (last xs)"
  by (cases xs rule: rev_cases) (simp_all add: py_last_def)

lemma py_split_snoc_piece:
  "c \<notin> set ext \<Longrightarrow> \<exists>pre. pre \<noteq> [] \<and> py_split c (stem @ c # ext) = pre @ [ext]"
proof (induction stem)
  case Nil
  then have "py_split c ([] @ c # ext) = [[]] @ [ext]"
    by (simp add: py_split_no_separator)
  then show ?case by blast
next
  case (Cons a stem)
  then obtain pre where pre: "pre \<noteq> []" "py_split c (stem @ c # ext) = pre @ [ext]"
    by blast
  then obtain y ys where y: "pre = y # ys" by (cases pre) auto
  show ?case
  proof (cases "a = c")
    case True
    with pre have "py_split c ((a # stem) @ c # ext) = ([] # pre) @ [ext]" by simp
    then show ?thesis by blast
  next
    case False
    with pre y have "py_split c ((a # stem) @ c # ext) = ((a # y) # ys) @ [ext]" by simp
    then show ?thesis by blast
  qed
qed

lemma get_file_type_extension:
  "CHR ''.'' \<notin> set ext \<Longrightarrow>
   get_file_type (stem @ ''.'' @ ext) = Inr (type_map_get (py_lower ext) ''unknown'')"
proof -
  assume "CHR ''.'' \<notin> set ext"
  then obtain pre where "py_split (CHR ''.'') (stem @ CHR ''.'' # ext) = pre @ [ext]"
    using py_split_snoc_piece by blast
  then show ?thesis
    by (simp add: get_file_type_def py_last_def)
qed

lemma get_file_type_last:
  "get_file_type p = Inr (type_map_get (py_lower (last (py_split (CHR ''.'') p))) ''unknown'')"
  by (simp add: get_file_type_def py_last_total py_split_not_Nil)

lemmas lower_defs = py_lower_def py_lower_char_def upper_chars_def lower_chars_def

text \<open>
  C10. A path without a \<open>'.'\<close> is its own extension: it is classified by looking its
  lowercased whole name up in the table (so \<open>jsx\<close> is a \<open>react_component\<close>), a dotless
  path whose lowercased name is no key of the table is \<open>unknown\<close>, and no string makes
  \<open>get_file_type\<close> raise.
\<close>

theorem get_file_type_dotless:
  "(CHR ''.'' \<notin> set p \<longrightarrow>
      get_file_type p = Inr (type_map_get (py_lower p) ''unknown''))
   \<and> get_file_type ''jsx'' = Inr ''react_component''
   \<and> (CHR ''.'' \<notin> set p \<and> py_lower p \<notin> fst ` set type_map \<longrightarrow>
        get_file_type p = Inr ''unknown'')
   \<and> (\<exists>t. get_file_type q = Inr t)"
proof (intro conjI impI)
  assume "CHR ''.'' \<notin> set p"
  then show "get_file_type p = Inr (type_map_get (py_lower p) ''unknown'')"
    by (simp add: get_file_type_def py_split_no_separator py_last_def)
next
  show "get_file_type ''jsx'' = Inr ''react_component''"
    by (simp add: get_file_type_def py_last_def lower_defs type_map_get_def type_map_def)
next
  assume a: "CHR ''.'' \<notin> set p \<and> py_lower p \<notin> fst ` set type_map"
  then have "map_of type_map (py_lower p) = None"
    by (simp add: map_of_eq_None_iff)
  with a show "get_file_type p = Inr ''unknown''"
    by (simp add: get_file_type_def py_split_no_separator py_last_def type_map_get_def)
next
  show "\<exists>t. get_file_type q = Inr t"
    by (simp add: get_file_type_last)
qed

theorem get_file_type_dotless_witness:
  "CHR ''.'' \<notin> set ''Makefile''
   \<and> py_lower ''Makefile'' \<notin> fst ` set type_map
   \<and> get_file_type ''Makefile'' = Inr ''unknown''"
proof -
  have a: "CHR ''.'' \<notin> set ''Makefile''" by simp
  have b: "py_lower ''Makefile'' \<notin> fst ` set type_map"
    by (simp add: lower_defs type_map_def)
  from get_file_type_dotless [of "''Makefile''" "[]"]
  have "CHR ''.'' \<notin> set ''Makefile'' \<and> py_lower ''Makefile'' \<notin> fst ` set type_map
      \<longrightarrow> get_file_type ''Makefile'' = Inr ''unknown''"
    by blast
  with a b show ?thesis by blast
qed

section \<open>Properties of the TokenManager\<close>

lemma run_call_max: "max_tokens_per_minute (run_call self c) = max_tokens_per_minute self"
  by (cases c) (simp_all add: check_and_wait_def add_tokens_def Let_def)

lemma run_calls_max: "max_tokens_per_minute (run_calls self cs) = max_tokens_per_minute self"
  unfolding run_calls_def
  by (induction cs arbitrary: self) (simp_all add: run_call_max)

lemma add_tokens_clamped:
  "tokens_used (add_tokens n self) = min (tokens_used self + n) (max_tokens_per_minute self)"
  by (simp add: add_tokens_def Let_def)

lemma run_calls_snoc: "run_calls self (cs @ [c]) = run_call (run_calls self cs) c"
  by (simp add: run_calls_def)

text \<open>
  C5. In every sequence of reserve and commit calls, from any state, the state after a
  commit has \<open>tokens_used\<close> at most \<open>max_tokens_per_minute\<close>, the count being clamped. And
  when the clock read by a reserve is 60 seconds or more after \<open>start_time\<close>, the reserve
  sets \<open>tokens_used\<close> to 0, starts the window at that reading and returns without
  sleeping, whatever the estimate is.
\<close>

theorem token_budget:
  "(i < length calls \<and> calls ! i = Commit n \<longrightarrow>
      tokens_used (run_calls self (take (Suc i) calls)) \<le> max_tokens_per_minute self
      \<and> tokens_used (run_calls self (take (Suc i) calls)) =
          min (tokens_used (run_calls self (take i calls)) + n) (max_tokens_per_minute self))
   \<and> (60000000 \<le> current_time - start_time self \<longrightarrow>
        check_and_wait current_time woke_time est self =
          (self\<lparr>tokens_used := 0, start_time := current_time\<rparr>, None))"
proof (intro conjI impI)
  assume a: "i < length calls \<and> calls ! i = Commit n"
  then have "take (Suc i) calls = take i calls @ [Commit n]"
    by (simp add: take_Suc_conv_app_nth)
  then have "run_calls self (take (Suc i) calls) = add_tokens n (run_calls self (take i calls))"
    by (simp add: run_calls_snoc)
  then show u: "tokens_used (run_calls self (take (Suc i) calls)) =
      min (tokens_used (run_calls self (take i calls)) + n) (max_tokens_per_minute self)"
    by (simp add: add_tokens_clamped run_calls_max)
  then show "tokens_used (run_calls self (take (Suc i) calls)) \<le> max_tokens_per_minute self"
    by simp
next
  assume "60000000 \<le> current_time - start_time self"
  then show "check_and_wait current_time woke_time est self =
      (self\<lparr>tokens_used := 0, start_time := current_time\<rparr>, None)"
    by (simp add: check_and_wait_def Let_def)
qed

theorem token_budget_witness:
  "(1::nat) < length [Reserve 1000000 0 500, Commit 9000, Reserve 61000000 0 100000]
   \<and> [Reserve 1000000 0 500, Commit 9000, Reserve 61000000 0 100000] ! 1 = Commit 9000
   \<and> tokens_used (run_calls (TokenManager_init 8000 7500 0)
        (take (Suc 1) [Reserve 1000000 0 500, Commit 9000, Reserve 61000000 0 100000])) = 8000
   \<and> 60000000 \<le> (61000000::int) - start_time (TokenManager_init 8000 7500 0)
   \<and> check_and_wait 61000000 0 100000 (TokenManager_init 8000 7500 0) =
        ((TokenManager_init 8000 7500 0)\<lparr>tokens_used := 0, start_time := 61000000\<rparr>, None)"
proof -
  let ?cs = "[Reserve 1000000 0 500, Commit 9000, Reserve 61000000 0 100000]"
  let ?tm = "TokenManager_init 8000 7500 0"
  have a: "(1::nat) < length ?cs \<and> ?cs ! 1 = Commit 9000" by simp
  have b: "60000000 \<le> (61000000::int) - start_time ?tm"
    by (simp add: TokenManager_init_def)
  have c: "tokens_used (run_calls ?tm (take 1 ?cs)) = 0"
    by (simp add: run_calls_def check_and_wait_def TokenManager_init_def Let_def)
  from token_budget [of 1 ?cs 9000 ?tm 61000000 0 100000] a b
  have "tokens_used (run_calls ?tm (take (Suc 1) ?cs)) =
          min (tokens_used (run_calls ?tm (take 1 ?cs)) + 9000) (max_tokens_per_minute ?tm)"
    and d: "check_and_wait 61000000 0 100000 ?tm =
          (?tm\<lparr>tokens_used := 0, start_time := 61000000\<rparr>, None)"
    by blast+
  with c have "tokens_used (run_calls ?tm (take (Suc 1) ?cs)) = 8000"
    by (simp add: TokenManager_init_def)
  with a b d show ?thesis by blast
qed

section \<open>Substrings and stripping\<close>

lemma py_in_str_iff: "py_in_str n h \<longleftrightarrow> (\<exists>p q. h = p @ n @ q)"
proof (induction h)
  case Nil
  then show ?case by simp
next
  case (Cons c cs)
  have "startswith (c # cs) n \<longleftrightarrow> (\<exists>q. c # cs = n @ q)"
    unfolding startswith_def
    by (metis append_eq_conv_conj append_take_drop_id)
  moreover have "(\<exists>p q. c # cs = p @ n @ q) \<longleftrightarrow> (\<exists>q. c # cs = n @ q) \<or> (\<exists>p q. cs = p @ n @ q)"
  proof
    assume "\<exists>p q. c # cs = p @ n @ q"
    then obtain p q where pq: "c # cs = p @ n @ q" by blast
    show "(\<exists>q. c # cs = n @ q) \<or> (\<exists>p q. cs = p @ n @ q)"
    proof (cases p)
      case Nil
      with pq show ?thesis by auto
    next
      case (Cons a p')
      with pq have "cs = p' @ n @ q" by simp
      then show ?thesis by blast
    qed
  next
    assume "(\<exists>q. c # cs = n @ q) \<or> (\<exists>p q. cs = p @ n @ q)"
    then show "\<exists>p q. c # cs = p @ n @ q"
    proof
      assume "\<exists>q. c # cs = n @ q"
      then obtain q where "c # cs = [] @ n @ q" by auto
      then show ?thesis by blast
    next
      assume "\<exists>p q. cs = p @ n @ q"
      then obtain p q where "c # cs = (c # p) @ n @ q" by auto
      then show ?thesis by blast
    qed
  qed
  ultimately show ?case using Cons.IH by simp
qed

lemma in_dropWhile:
  assumes "n \<noteq> []" "\<not> P (hd n)"
  shows "(\<exists>p q. dropWhile P s = p @ n @ q) \<longleftrightarrow> (\<exists>p q. s = p @ n @ q)"
proof
  assume "\<exists>p q. dropWhile P s = p @ n @ q"
  then obtain p q where "dropWhile P s = p @ n @ q" by blast
  then have "s = (takeWhile P s @ p) @ n @ q"
    by (metis append.assoc takeWhile_dropWhile_id)
  then show "\<exists>p q. s = p @ n @ q" by blast
next
  assume "\<exists>p q. s = p @ n @ q"
  then obtain p q where s: "s = p @ n @ q" by blast
  from assms obtain a n' where n: "n = a # n'" "\<not> P a" by (cases n) auto
  show "\<exists>p q. dropWhile P s = p @ n @ q"
    unfolding s
  proof (induction p)
    case Nil
    with n show ?case by (metis append_Nil dropWhile.simps(2) append_Cons)
  next
    case (Cons x p)
    show ?case
    proof (cases "P x")
      case True
      with Cons show ?thesis by simp
    next
      case False
      then have "dropWhile P ((x # p) @ n @ q) = (x # p) @ n @ q" by simp
      then show ?thesis by blast
    qed
  qed
qed

lemma in_rev: "(\<exists>p q. rev s = p @ n @ q) \<longleftrightarrow> (\<exists>p q. s = p @ rev n @ q)"
proof
  assume "\<exists>p q. rev s = p @ n @ q"
  then obtain p q where "rev s = p @ n @ q" by blast
  then have "s = rev q @ rev n @ rev p" by (metis rev_append rev_rev_ident append.assoc)
  then show "\<exists>p q. s = p @ rev n @ q" by blast
next
  assume "\<exists>p q. s = p @ rev n @ q"
  then obtain p q where "s = p @ rev n @ q" by blast
  then have "rev s = rev q @ n @ rev p" by simp
  then show "\<exists>p q. rev s = p @ n @ q" by blast
qed

lemma py_in_str_strip:
  assumes "n \<noteq> []" "\<not> py_isspace (hd n)" "\<not> py_isspace (last n)"
  shows "py_in_str n (py_strip s) = py_in_str n s"
proof -
  have rn: "rev n \<noteq> []" "\<not> py_isspace (hd (rev n))"
    using assms by (simp_all add: hd_rev)
  have "py_in_str n (py_strip s) \<longleftrightarrow> (\<exists>p q. rev (dropWhile py_isspace (rev (dropWhile py_isspace s))) = p @ n @ q)"
    by (simp add: py_in_str_iff py_strip_def py_rstrip_def py_lstrip_def)
  also have "\<dots> \<longleftrightarrow> (\<exists>p q. dropWhile py_isspace (rev (dropWhile py_isspace s)) = p @ rev n @ q)"
    by (rule in_rev)
  also have "\<dots> \<longleftrightarrow> (\<exists>p q. rev (dropWhile py_isspace s) = p @ rev n @ q)"
    using in_dropWhile [of "rev n" py_isspace "rev (dropWhile py_isspace s)"] rn by blast
  also have "\<dots> \<longleftrightarrow> (\<exists>p q. dropWhile py_isspace s = p @ n @ q)"
    using in_rev [of "dropWhile py_isspace s" "rev n"] by simp
  also have "\<dots> \<longleftrightarrow> (\<exists>p q. s = p @ n @ q)"
    using in_dropWhile [of n py_isspace s] assms(1,2) by blast
  finally show ?thesis by (simp add: py_in_str_iff)
qed

lemma kind_literals_strip:
  "py_in_str ''code_generation'' (py_strip s) = py_in_str ''code_generation'' s"
  "py_in_str ''error_resolution'' (py_strip s) = py_in_str ''error_resolution'' s"
  "py_in_str ''code_change'' (py_strip s) = py_in_str ''code_change'' s"
  "py_in_str ''code_continuation'' (py_strip s) = py_in_str ''code_continuation'' s"
  by (rule py_in_str_strip; simp add: py_isspace_def)+

lemmas decoder_defs =
  json_loads_def lex_start_def json_space_def digit_val_def int_token_def key_eq_def

lemma replicate_numeral: "replicate (numeral v) x = x # replicate (numeral v - 1) x"
  by (simp add: numeral_eq_Suc)

section \<open>Properties of get_manager_decision\<close>

lemma keyword_fallback_kind: "keyword_fallback s \<in> set task_kinds"
  by (simp add: keyword_fallback_def task_kinds_def)

lemma keyword_fallback_none:
  "\<forall>k\<in>set task_kinds. \<not> py_in_str k s \<Longrightarrow> keyword_fallback s = ''code_generation''"
  by (simp add: keyword_fallback_def task_kinds_def)

lemma keyword_fallback_strip: "keyword_fallback (py_strip s) = keyword_fallback s"
  by (simp add: keyword_fallback_def kind_literals_strip)

lemma decision_of_object:
  "loads (py_strip out) = Some (JDict d) \<Longrightarrow>
   get_manager_decision loads (ResultWrapper out) = Inr (dict_get d (KStr ''task'') (JStr ''''))"
  by (simp add: get_manager_decision_def)

lemma decision_of_other:
  "\<forall>d. loads (py_strip out) \<noteq> Some (JDict d) \<Longrightarrow>
   get_manager_decision loads (ResultWrapper out) = Inr (JStr (keyword_fallback out))"
  by (auto simp: get_manager_decision_def keyword_fallback_strip Let_def
      split: option.splits json.splits)

text \<open>
  C7, as the code has it. When the stripped output of the classification worker decodes
  to a JSON object, the decision is the value under \<open>task\<close> as it stands, and the empty
  string when the object has no such key: nothing checks it against the four kinds. In
  every other case (the text does not decode, or decodes to something that is not an
  object) the decision is one of the four kinds, and it is \<open>code_generation\<close> when the
  text contains none of the four literals.
\<close>

theorem manager_decision_cases:
  "(loads (py_strip out) = Some (JDict d) \<longrightarrow>
      get_manager_decision loads (ResultWrapper out) =
        Inr (dict_get d (KStr ''task'') (JStr '''')))
   \<and> ((\<forall>d'. loads (py_strip out) \<noteq> Some (JDict d')) \<longrightarrow>
        (\<exists>k\<in>set task_kinds. get_manager_decision loads (ResultWrapper out) = Inr (JStr k))
        \<and> ((\<forall>k\<in>set task_kinds. \<not> py_in_str k out) \<longrightarrow>
             get_manager_decision loads (ResultWrapper out) = Inr (JStr ''code_generation'')))"
proof (intro conjI impI)
  assume "loads (py_strip out) = Some (JDict d)"
  then show "get_manager_decision loads (ResultWrapper out) =
      Inr (dict_get d (KStr ''task'') (JStr ''''))"
    by (rule decision_of_object)
next
  assume a: "\<forall>d'. loads (py_strip out) \<noteq> Some (JDict d')"
  have "get_manager_decision loads (ResultWrapper out) = Inr (JStr (keyword_fallback out))"
    using a by (rule decision_of_other)
  then show "\<exists>k\<in>set task_kinds. get_manager_decision loads (ResultWrapper out) = Inr (JStr k)"
    using keyword_fallback_kind [of out] by blast
next
  assume a: "\<forall>d'. loads (py_strip out) \<noteq> Some (JDict d')"
    and b: "\<forall>k\<in>set task_kinds. \<not> py_in_str k out"
  show "get_manager_decision loads (ResultWrapper out) = Inr (JStr ''code_generation'')"
    using decision_of_other [of loads out] a keyword_fallback_none [OF b] by simp
qed

theorem manager_decision_cases_witness:
  \<open>json_loads (py_strip '' {"task": "code_change"} '') = Some (JDict [(KStr ''task'', JStr ''code_change'')])
   \<and> get_manager_decision json_loads (ResultWrapper '' {"task": "code_change"} '') =
       Inr (JStr ''code_change'')
   \<and> json_loads (py_strip ''build me a shop'') = None
   \<and> \<not> py_in_str ''code_generation'' ''build me a shop''
   \<and> \<not> py_in_str ''error_resolution'' ''build me a shop''
   \<and> \<not> py_in_str ''code_change'' ''build me a shop''
   \<and> \<not> py_in_str ''code_continuation'' ''build me a shop''
   \<and> get_manager_decision json_loads (ResultWrapper ''build me a shop'') =
       Inr (JStr ''code_generation'')\<close>
proof -
  have a: \<open>json_loads (py_strip '' {"task": "code_change"} '') =
      Some (JDict [(KStr ''task'', JStr ''code_change'')])\<close>
    by (simp add: py_strip_def py_lstrip_def py_rstrip_def py_isspace_def decoder_defs)
  have b: "json_loads (py_strip ''build me a shop'') = None"
    by (simp add: py_strip_def py_lstrip_def py_rstrip_def py_isspace_def decoder_defs)
  have c: "\<not> py_in_str ''code_generation'' ''build me a shop''"
    "\<not> py_in_str ''error_resolution'' ''build me a shop''"
    "\<not> py_in_str ''code_change'' ''build me a shop''"
    "\<not> py_in_str ''code_continuation'' ''build me a shop''"
    by (simp_all add: startswith_def)
  then have c': "\<forall>k\<in>set task_kinds. \<not> py_in_str k ''build me a shop''"
    by (simp add: task_kinds_def)
  from manager_decision_cases [of json_loads \<open>'' {"task": "code_change"} ''\<close>
      "[(KStr ''task'', JStr ''code_change'')]"] a
  have d: \<open>get_manager_decision json_loads (ResultWrapper '' {"task": "code_change"} '') =
       Inr (JStr ''code_change'')\<close>
    by (simp add: dict_get_def key_eq_def)
  from manager_decision_cases [of json_loads "''build me a shop''"] b c'
  have e: "get_manager_decision json_loads (ResultWrapper ''build me a shop'') =
       Inr (JStr ''code_generation'')"
    by simp
  from a b c d e show ?thesis by blast
qed

text \<open>
  The claim as it was stated fails on a JSON object whose \<open>task\<close> is some other string:
  the decision is that string.
\<close>

theorem manager_decision_counterexample:
  \<open>get_manager_decision json_loads (ResultWrapper ''{"task": "foo"}'') = Inr (JStr ''foo'')
   \<and> ''foo'' \<notin> set task_kinds\<close>
  by (simp add: get_manager_decision_def py_strip_def py_lstrip_def py_rstrip_def py_isspace_def
      decoder_defs dict_get_def task_kinds_def)

text \<open>
  C8, as the code has it. When the stripped output does not decode, the four literals are
  looked for in the order \<open>code_generation\<close>, \<open>error_resolution\<close>, \<open>code_change\<close>,
  \<open>code_continuation\<close>: a text that contains \<open>error_resolution\<close> is classified as
  \<open>error_resolution\<close> when it does not contain \<open>code_generation\<close>, a text that contains
  \<open>code_generation\<close> is classified as \<open>code_generation\<close>, and so is a text that contains
  none of the four.
\<close>

theorem keyword_fallback_order:
  "loads (py_strip out) = None \<Longrightarrow>
     (py_in_str ''error_resolution'' out \<and> \<not> py_in_str ''code_generation'' out \<longrightarrow>
        get_manager_decision loads (ResultWrapper out) = Inr (JStr ''error_resolution''))
   \<and> (py_in_str ''code_generation'' out \<longrightarrow>
        get_manager_decision loads (ResultWrapper out) = Inr (JStr ''code_generation''))
   \<and> ((\<forall>k\<in>set task_kinds. \<not> py_in_str k out) \<longrightarrow>
        get_manager_decision loads (ResultWrapper out) = Inr (JStr ''code_generation''))"
proof -
  assume "loads (py_strip out) = None"
  then have "get_manager_decision loads (ResultWrapper out) = Inr (JStr (keyword_fallback out))"
    by (simp add: decision_of_other)
  then show ?thesis
    by (simp add: keyword_fallback_def task_kinds_def)
qed

theorem keyword_fallback_order_witness:
  "json_loads (py_strip ''this is an error_resolution task'') = None
   \<and> py_in_str ''error_resolution'' ''this is an error_resolution task''
   \<and> \<not> py_in_str ''code_generation'' ''this is an error_resolution task''
   \<and> get_manager_decision json_loads (ResultWrapper ''this is an error_resolution task'') =
       Inr (JStr ''error_resolution'')"
proof -
  have a: "json_loads (py_strip ''this is an error_resolution task'') = None"
    by (simp add: py_strip_def py_lstrip_def py_rstrip_def py_isspace_def decoder_defs)
  have b: "py_in_str ''error_resolution'' ''this is an error_resolution task''"
    by (simp add: startswith_def)
  have c: "\<not> py_in_str ''code_generation'' ''this is an error_resolution task''"
    by (simp add: startswith_def)
  from keyword_fallback_order [of json_loads "''this is an error_resolution task''"] a b c
  show ?thesis by blast
qed

text \<open>
  The claim as it was stated fails on a text that contains both literals:
  \<open>code_generation\<close> is tested first.
\<close>

theorem keyword_fallback_counterexample:
  "json_loads (py_strip ''code_generation or error_resolution'') = None
   \<and> py_in_str ''error_resolution'' ''code_generation or error_resolution''
   \<and> get_manager_decision json_loads (ResultWrapper ''code_generation or error_resolution'') =
       Inr (JStr ''code_generation'')
   \<and> JStr ''code_generation'' \<noteq> JStr ''error_resolution''"
  by (simp add: get_manager_decision_def keyword_fallback_def startswith_def
      py_strip_def py_lstrip_def py_rstrip_def py_isspace_def decoder_defs)

section \<open>Properties of extract_partial_json\<close>

lemmas strip_defs = py_strip_def py_lstrip_def py_rstrip_def py_isspace_def

lemmas close_text_defs = close_text_def strip_defs endswith_def py_count_def replicate_numeral

lemma extract_of_valid: "loads text = Some v \<Longrightarrow> extract_partial_json loads text = (v, True)"
  by (simp add: extract_partial_json_def)

lemma extract_of_invalid:
  "loads text = None \<Longrightarrow>
   extract_partial_json loads text =
     (case loads (close_text text) of Some v \<Rightarrow> (v, False) | None \<Rightarrow> (JNull, False))"
  by (simp add: extract_partial_json_def)

text \<open>
  C1. On a text that the decoder accepts, \<open>extract_partial_json\<close> returns the decoded
  value and \<open>True\<close>. The truncated text \<^verbatim>\<open>{"a": 1, "b": [1,2\<close> is closed by one \<open>]\<close> and
  then one \<open>}\<close>, to \<^verbatim>\<open>{"a": 1, "b": [1,2]}\<close>, and the result is the object decoded from
  that text and \<open>False\<close>.
\<close>

theorem extract_partial_json_complete:
  \<open>(loads text = Some v \<longrightarrow> extract_partial_json loads text = (v, True))
   \<and> close_text ''{"a": 1, "b": [1,2'' = ''{"a": 1, "b": [1,2'' @ '']'' @ ''}''
   \<and> close_text ''{"a": 1, "b": [1,2'' = ''{"a": 1, "b": [1,2]}''
   \<and> json_loads ''{"a": 1, "b": [1,2'' = None
   \<and> extract_partial_json json_loads ''{"a": 1, "b": [1,2'' =
       (JDict [(KStr ''a'', JInt 1), (KStr ''b'', JList [JInt 1, JInt 2])], False)\<close>
proof (intro conjI impI)
  assume "loads text = Some v"
  then show "extract_partial_json loads text = (v, True)"
    by (rule extract_of_valid)
next
  show c: \<open>close_text ''{"a": 1, "b": [1,2'' = ''{"a": 1, "b": [1,2]}''\<close>
    by (simp add: close_text_defs)
  then show \<open>close_text ''{"a": 1, "b": [1,2'' = ''{"a": 1, "b": [1,2'' @ '']'' @ ''}''\<close>
    by simp
  show n: \<open>json_loads ''{"a": 1, "b": [1,2'' = None\<close>
    by (simp add: decoder_defs)
  have \<open>json_loads ''{"a": 1, "b": [1,2]}'' =
      Some (JDict [(KStr ''a'', JInt 1), (KStr ''b'', JList [JInt 1, JInt 2])])\<close>
    by (simp add: decoder_defs)
  with c n show \<open>extract_partial_json json_loads ''{"a": 1, "b": [1,2'' =
       (JDict [(KStr ''a'', JInt 1), (KStr ''b'', JList [JInt 1, JInt 2])], False)\<close>
    by (simp add: extract_partial_json_def)
qed

theorem extract_partial_json_complete_witness:
  \<open>json_loads ''{"a": 1, "b": [1,2]}'' =
     Some (JDict [(KStr ''a'', JInt 1), (KStr ''b'', JList [JInt 1, JInt 2])])
   \<and> extract_partial_json json_loads ''{"a": 1, "b": [1,2]}'' =
       (JDict [(KStr ''a'', JInt 1), (KStr ''b'', JList [JInt 1, JInt 2])], True)\<close>
proof -
  have a: \<open>json_loads ''{"a": 1, "b": [1,2]}'' =
      Some (JDict [(KStr ''a'', JInt 1), (KStr ''b'', JList [JInt 1, JInt 2])])\<close>
    by (simp add: decoder_defs)
  from extract_partial_json_complete [of json_loads \<open>''{"a": 1, "b": [1,2]}''\<close>
      "JDict [(KStr ''a'', JInt 1), (KStr ''b'', JList [JInt 1, JInt 2])]"] a
  show ?thesis by blast
qed

text \<open>
  C2, as the code has it. The text \<^verbatim>\<open>{"a":1,}\<close> ends with \<open>}\<close>, not with a comma, and its
  braces are balanced: the repair leaves it as it is, so when the decoder rejects it the
  result is \<^verbatim>\<open>(None, False)\<close>. The comma is dropped when it is the last character of the
  stripped text: \<^verbatim>\<open>{"a":1,\<close> is repaired to \<^verbatim>\<open>{"a":1}\<close> and gives that object with
  \<open>False\<close>.
\<close>

theorem trailing_comma_repair:
  \<open>close_text ''{"a":1,}'' = ''{"a":1,}''
   \<and> (loads ''{"a":1,}'' = None \<longrightarrow> extract_partial_json loads ''{"a":1,}'' = (JNull, False))
   \<and> close_text ''{"a":1,'' = ''{"a":1}''
   \<and> extract_partial_json json_loads ''{"a":1,'' = (JDict [(KStr ''a'', JInt 1)], False)\<close>
proof (intro conjI impI)
  show c: \<open>close_text ''{"a":1,}'' = ''{"a":1,}''\<close>
    by (simp add: close_text_defs)
  show \<open>extract_partial_json loads ''{"a":1,}'' = (JNull, False)\<close>
    if \<open>loads ''{"a":1,}'' = None\<close>
    using that c by (simp add: extract_partial_json_def)
  show d: \<open>close_text ''{"a":1,'' = ''{"a":1}''\<close>
    by (simp add: close_text_defs)
  have \<open>json_loads ''{"a":1,'' = None\<close>
    by (simp add: decoder_defs)
  moreover have \<open>json_loads ''{"a":1}'' = Some (JDict [(KStr ''a'', JInt 1)])\<close>
    by (simp add: decoder_defs)
  ultimately show \<open>extract_partial_json json_loads ''{"a":1,'' = (JDict [(KStr ''a'', JInt 1)], False)\<close>
    using d by (simp add: extract_partial_json_def)
qed

theorem trailing_comma_repair_witness:
  \<open>json_loads ''{"a":1,}'' = None
   \<and> extract_partial_json json_loads ''{"a":1,}'' = (JNull, False)\<close>
proof -
  have a: \<open>json_loads ''{"a":1,}'' = None\<close>
    by (simp add: decoder_defs)
  from trailing_comma_repair [of json_loads] a show ?thesis by blast
qed

text \<open>
  The claim as it was stated fails: on \<^verbatim>\<open>{"a":1,}\<close> the result is not the object
  \<^verbatim>\<open>{"a": 1}\<close>.
\<close>

theorem trailing_comma_counterexample:
  \<open>extract_partial_json json_loads ''{"a":1,}'' = (JNull, False)
   \<and> extract_partial_json json_loads ''{"a":1,}'' \<noteq> (JDict [(KStr ''a'', JInt 1)], False)\<close>
  by (simp add: extract_partial_json_def close_text_defs decoder_defs)

section \<open>Properties of create_structure_only\<close>

lemma key_eq_KStr [simp]: "key_eq (KStr p) (KStr q) \<longleftrightarrow> p = q"
  by (simp add: key_eq_def)

lemma dict_set_fresh:
  "\<forall>k'\<in>fst ` set d. \<not> key_eq k k' \<Longrightarrow> dict_set k v d = d @ [(k, v)]"
  by (induction d) auto

lemma file_summary_str:
  "file_summary t (JStr s) =
     JDict [(KStr ''type'', JStr t),
            (KStr ''size'', JInt (int (length s))),
            (KStr ''preview'', JStr (take 100 s))]"
  by (simp add: file_summary_def)

text \<open>
  A content that is not a string is measured through \<^verbatim>\<open>str\<close>, and a false one has an
  empty preview: the number 0 has size 1 and no preview.
\<close>

lemma file_summary_zero:
  "file_summary t (JInt 0) =
     JDict [(KStr ''type'', JStr t), (KStr ''size'', JInt 1), (KStr ''preview'', JStr [])]"
  by (simp add: file_summary_def int_str_def nat_digits.simps digit_char_def)

lemma summarize_files_strings:
  "distinct (map fst files) \<Longrightarrow>
   \<forall>k'\<in>fst ` set acc. \<forall>p\<in>fst ` set files. \<not> key_eq (KStr p) k' \<Longrightarrow>
   summarize_files (map (\<lambda>(p, s). (KStr p, JStr s)) files) acc =
     Inr (acc @ map (\<lambda>(p, s). (KStr p,
            file_summary (type_map_get (py_lower (last (py_split (CHR ''.'') p))) ''unknown'')
              (JStr s))) files)"
proof (induction files arbitrary: acc)
  case Nil
  then show ?case by simp
next
  case (Cons f files)
  obtain p s where f: "f = (p, s)" by (cases f)
  let ?v = "file_summary (type_map_get (py_lower (last (py_split (CHR ''.'') p))) ''unknown'') (JStr s)"
  have fresh: "\<forall>k'\<in>fst ` set acc. \<not> key_eq (KStr p) k'"
    using Cons.prems(2) f by auto
  have step: "dict_set (KStr p) ?v acc = acc @ [(KStr p, ?v)]"
    using fresh by (rule dict_set_fresh)
  have "\<forall>k'\<in>fst ` set (acc @ [(KStr p, ?v)]). \<forall>q\<in>fst ` set files. \<not> key_eq (KStr q) k'"
    using Cons.prems f by auto
  moreover have "distinct (map fst files)"
    using Cons.prems(1) by simp
  ultimately have "summarize_files (map (\<lambda>(p, s). (KStr p, JStr s)) files) (acc @ [(KStr p, ?v)]) =
      Inr ((acc @ [(KStr p, ?v)]) @ map (\<lambda>(p, s). (KStr p,
            file_summary (type_map_get (py_lower (last (py_split (CHR ''.'') p))) ''unknown'')
              (JStr s))) files)"
    by (rule Cons.IH [rotated])
  then show ?case
    by (simp add: f get_file_type_last step)
qed

text \<open>
  C9. A value that is not a \<^verbatim>\<open>dict\<close> is returned as it is. For a bundle whose \<open>files\<close> is
  a mapping from paths to strings, the result carries \<open>project_name\<close> and \<open>framework\<close>
  (with their defaults) and, for each file in order, its type, \<open>size\<close> equal to the
  length of the content and \<open>preview\<close> equal to the first 100 characters of the content,
  which is the whole content when it is not longer. The type is decided by the text after
  the last \<open>'.'\<close>, lowercased first, so upper and lower case extensions are classified
  alike; \<open>jsx\<close> is a \<open>react_component\<close> and \<open>xyz\<close>, which the table does not have, is
  \<open>unknown\<close>.
\<close>

theorem create_structure_only_summary:
  "(\<not> is_dict v \<longrightarrow> create_structure_only v = Inr v)
   \<and> (dict_lookup (KStr ''files'') d = Some (JDict (map (\<lambda>(p, s). (KStr p, JStr s)) files))
        \<and> distinct (map fst files) \<longrightarrow>
        create_structure_only (JDict d) =
          Inr (JDict
            [(KStr ''project_name'', dict_get d (KStr ''project_name'') (JStr ''unknown'')),
             (KStr ''framework'', dict_get d (KStr ''framework'') (JStr ''React'')),
             (KStr ''files'', JDict (map (\<lambda>(p, s). (KStr p,
                JDict [(KStr ''type'',
                          JStr (type_map_get (py_lower (last (py_split (CHR ''.'') p))) ''unknown'')),
                       (KStr ''size'', JInt (int (length s))),
                       (KStr ''preview'', JStr (take 100 s))])) files))]))
   \<and> (length s \<le> 100 \<longrightarrow> take 100 s = s)
   \<and> (CHR ''.'' \<notin> set ext \<longrightarrow>
        get_file_type (stem @ ''.'' @ ext) = Inr (type_map_get (py_lower ext) ''unknown''))
   \<and> type_map_get ''jsx'' ''unknown'' = ''react_component''
   \<and> type_map_get ''xyz'' ''unknown'' = ''unknown''
   \<and> get_file_type ''src/App.JSX'' = Inr ''react_component''
   \<and> get_file_type ''notes.xyz'' = Inr ''unknown''"
proof (intro conjI impI)
  assume "\<not> is_dict v"
  then show "create_structure_only v = Inr v"
    by (cases v) (simp_all add: create_structure_only_def)
next
  assume a: "dict_lookup (KStr ''files'') d = Some (JDict (map (\<lambda>(p, s). (KStr p, JStr s)) files))
      \<and> distinct (map fst files)"
  then have "summarize_files (map (\<lambda>(p, s). (KStr p, JStr s)) files) [] =
     Inr ([] @ map (\<lambda>(p, s). (KStr p,
            file_summary (type_map_get (py_lower (last (py_split (CHR ''.'') p))) ''unknown'')
              (JStr s))) files)"
    by (intro summarize_files_strings) simp_all
  with a show "create_structure_only (JDict d) =
          Inr (JDict
            [(KStr ''project_name'', dict_get d (KStr ''project_name'') (JStr ''unknown'')),
             (KStr ''framework'', dict_get d (KStr ''framework'') (JStr ''React'')),
             (KStr ''files'', JDict (map (\<lambda>(p, s). (KStr p,
                JDict [(KStr ''type'',
                          JStr (type_map_get (py_lower (last (py_split (CHR ''.'') p))) ''unknown'')),
                       (KStr ''size'', JInt (int (length s))),
                       (KStr ''preview'', JStr (take 100 s))])) files))])"
    by (simp add: create_structure_only_def file_summary_str)
next
  assume "length s \<le> 100"
  then show "take 100 s = s" by simp
next
  assume "CHR ''.'' \<notin> set ext"
  then show "get_file_type (stem @ ''.'' @ ext) = Inr (type_map_get (py_lower ext) ''unknown'')"
    by (rule get_file_type_extension)
next
  show "type_map_get ''jsx'' ''unknown'' = ''react_component''"
    by (simp add: type_map_get_def type_map_def)
  show "type_map_get ''xyz'' ''unknown'' = ''unknown''"
    by (simp add: type_map_get_def type_map_def)
  show "get_file_type ''src/App.JSX'' = Inr ''react_component''"
    using get_file_type_extension [of "''JSX''" "''src/App''"]
    by (simp add: lower_defs type_map_get_def type_map_def)
  show "get_file_type ''notes.xyz'' = Inr ''unknown''"
    using get_file_type_extension [of "''xyz''" "''notes''"]
    by (simp add: lower_defs type_map_get_def type_map_def)
qed

theorem create_structure_only_summary_witness:
  "\<not> is_dict (JStr ''no project'')
   \<and> create_structure_only (JStr ''no project'') = Inr (JStr ''no project'')
   \<and> distinct (map fst [(''src/App.jsx'', replicate 250 (CHR ''x'')), (''notes.xyz'', ''hi'')])
   \<and> create_structure_only
        (JDict [(KStr ''project_name'', JStr ''shop''),
                (KStr ''files'',
                   JDict [(KStr ''src/App.jsx'', JStr (replicate 250 (CHR ''x''))),
                          (KStr ''notes.xyz'', JStr ''hi'')])]) =
        Inr (JDict
          [(KStr ''project_name'', JStr ''shop''),
           (KStr ''framework'', JStr ''React''),
           (KStr ''files'',
              JDict [(KStr ''src/App.jsx'',
                        JDict [(KStr ''type'', JStr ''react_component''),
                               (KStr ''size'', JInt 250),
                               (KStr ''preview'', JStr (replicate 100 (CHR ''x'')))]),
                     (KStr ''notes.xyz'',
                        JDict [(KStr ''type'', JStr ''unknown''),
                               (KStr ''size'', JInt 2),
                               (KStr ''preview'', JStr ''hi'')])])])
   \<and> length ''hi'' \<le> 100
   \<and> CHR ''.'' \<notin> set ''CSS''
   \<and> get_file_type ''style.CSS'' = Inr ''stylesheet''"
proof -
  let ?files = "[(''src/App.jsx'', replicate 250 (CHR ''x'')), (''notes.xyz'', ''hi'')]"
  let ?d = "[(KStr ''project_name'', JStr ''shop''),
             (KStr ''files'',
                JDict [(KStr ''src/App.jsx'', JStr (replicate 250 (CHR ''x''))),
                       (KStr ''notes.xyz'', JStr ''hi'')])]"
  note inst = create_structure_only_summary
    [of "JStr ''no project''" ?d ?files "''hi''" "''CSS''" "''style''"]
  have a: "\<not> is_dict (JStr ''no project'')" by simp
  have b: "dict_lookup (KStr ''files'') ?d = Some (JDict (map (\<lambda>(p, s). (KStr p, JStr s)) ?files))
      \<and> distinct (map fst ?files)"
    by simp
  have c: "CHR ''.'' \<notin> set ''CSS''" by simp
  have t1: "type_map_get (py_lower ''jsx'') ''unknown'' = ''react_component''"
    by (simp add: lower_defs type_map_get_def type_map_def)
  have t2: "type_map_get (py_lower ''xyz'') ''unknown'' = ''unknown''"
    by (simp add: lower_defs type_map_get_def type_map_def)
  have t3: "type_map_get (py_lower ''CSS'') ''unknown'' = ''stylesheet''"
    by (simp add: lower_defs type_map_get_def type_map_def)
  from inst a have r1: "create_structure_only (JStr ''no project'') = Inr (JStr ''no project'')"
    by blast
  from inst b have "create_structure_only (JDict ?d) =
          Inr (JDict
            [(KStr ''project_name'', dict_get ?d (KStr ''project_name'') (JStr ''unknown'')),
             (KStr ''framework'', dict_get ?d (KStr ''framework'') (JStr ''React'')),
             (KStr ''files'', JDict (map (\<lambda>(p, s). (KStr p,
                JDict [(KStr ''type'',
                          JStr (type_map_get (py_lower (last (py_split (CHR ''.'') p))) ''unknown'')),
                       (KStr ''size'', JInt (int (length s))),
                       (KStr ''preview'', JStr (take 100 s))])) ?files))])"
    by blast
  then have r2: "create_structure_only (JDict ?d) =
        Inr (JDict
          [(KStr ''project_name'', JStr ''shop''),
           (KStr ''framework'', JStr ''React''),
           (KStr ''files'',
              JDict [(KStr ''src/App.jsx'',
                        JDict [(KStr ''type'', JStr ''react_component''),
                               (KStr ''size'', JInt 250),
                               (KStr ''preview'', JStr (replicate 100 (CHR ''x'')))]),
                     (KStr ''notes.xyz'',
                        JDict [(KStr ''type'', JStr ''unknown''),
                               (KStr ''size'', JInt 2),
                               (KStr ''preview'', JStr ''hi'')])])])"
    by (simp add: t1 t2 dict_get_def)
  from inst c have "get_file_type (''style'' @ ''.'' @ ''CSS'') = Inr (type_map_get (py_lower ''CSS'') ''unknown'')"
    by blast
  then have r3: "get_file_type ''style.CSS'' = Inr ''stylesheet''"
    by (simp add: t3)
  from a b c r1 r2 r3 show ?thesis by simp
qed

section \<open>Properties of handle_error_resolution\<close>

lemma parse_project_invalid:
  "loads code_text = None \<Longrightarrow>
   parse_project loads user_input (CodeStr code_text) pc = (Inl JSONDecodeError, pc)"
  by (simp add: parse_project_def load_code_def)

text \<open>
  A project that decodes reaches steps 2 to 4 with \<open>error_description\<close> bound to the
  user's text.
\<close>

lemma handle_error_resolution_valid_project:
  \<open>handle_error_resolution json_loads steps ''the page is blank''
       (CodeStr ''{"files": {"a.js": "x"}}'') pc =
     steps ''the page is blank''
       (JDict [(KStr ''files'', JDict [(KStr ''a.js'', JStr ''x'')])])
       (JDict [(KStr ''project_name'', JStr ''unknown''),
               (KStr ''framework'', JStr ''React''),
               (KStr ''files'',
                  JDict [(KStr ''a.js'',
                            JDict [(KStr ''type'', JStr ''javascript''),
                                   (KStr ''size'', JInt 1),
                                   (KStr ''preview'', JStr ''x'')])])])
       (set_original_files [(KStr ''a.js'', JStr ''x'')] pc)\<close>
  by (simp add: handle_error_resolution_def parse_project_def load_code_def decoder_defs
      files_dict_of_def create_structure_only_def dict_get_def get_file_type_def py_last_def
      lower_defs type_map_get_def type_map_def file_summary_def print_summary_def)

text \<open>
  C4 fails on the code. When \<open>code\<close> is a string that does not decode, the handler of the
  first \<^verbatim>\<open>try\<close> builds the fallback project, but the next line reads
  \<^verbatim>\<open>error_description\<close>, which only the last line of the \<^verbatim>\<open>try\<close> body binds: the function
  raises \<^verbatim>\<open>UnboundLocalError\<close> before any worker is called, whatever steps 2 to 4 are.
\<close>

theorem handle_error_resolution_invalid_json:
  "loads code_text = None \<Longrightarrow>
   handle_error_resolution loads steps_2_to_4 user_input (CodeStr code_text) pc =
     (Inl UnboundLocalError, pc)"
  by (simp add: handle_error_resolution_def parse_project_invalid print_summary_def)

theorem handle_error_resolution_invalid_json_witness:
  "json_loads ''not json'' = None
   \<and> handle_error_resolution json_loads (\<lambda>ed full_project structure pc. (Inr full_project, pc))
        ''the page is blank'' (CodeStr ''not json'') ProjectContext_init =
       (Inl UnboundLocalError, ProjectContext_init)"
proof -
  have a: "json_loads ''not json'' = None"
    by (simp add: decoder_defs)
  from handle_error_resolution_invalid_json
    [of json_loads "''not json''" "\<lambda>ed full_project structure pc. (Inr full_project, pc)"
      "''the page is blank''" ProjectContext_init] a
  show ?thesis by blast
qed

section \<open>Properties of stream_codegen_with_continuation\<close>

lemma key_eq_refl [simp]: "key_eq k k"
  by (simp add: key_eq_def)

lemma key_eq_trans_iff: "key_eq a b \<Longrightarrow> key_eq c a = key_eq c b"
  by (simp add: key_eq_def)

lemma dict_lookup_dict_set:
  "dict_lookup k (dict_set k' v d) = (if key_eq k k' then Some v else dict_lookup k d)"
  by (induction d) (auto simp: key_eq_def)

text \<open>
  Laying \<open>other\<close> over \<open>d\<close>: a key of \<open>other\<close> has the value that \<open>other\<close> gives it (the
  last one, should the list name it twice), any other key keeps the value of \<open>d\<close>.
\<close>

lemma dict_lookup_overlay:
  "dict_lookup k (foldl (\<lambda>acc (k, v). dict_set k v acc) d other) =
     (case dict_lookup k (rev other) of Some v \<Rightarrow> Some v | None \<Rightarrow> dict_lookup k d)"
  by (induction other rule: rev_induct) (auto simp: dict_lookup_dict_set)

lemma continuation_branch:
  "run ag user_input = Inr pieces \<Longrightarrow>
   extract_partial_json loads (accumulate pieces) = (partial_json, False) \<Longrightarrow>
   py_truthy partial_json \<Longrightarrow>
   fst (stream_codegen_with_continuation loads run ag user_input st) =
     (case merge_continuation loads partial_json
             (stream_codegen_async run continuation_agent
                (json_dumps None (continuation_input user_input (accumulate pieces) partial_json))) of
        Inr (Some merged) \<Rightarrow> json_dumps (Some 2) merged
      | Inr None \<Rightarrow> accumulate pieces
      | Inl e \<Rightarrow> accumulate pieces)"
  by (simp add: stream_codegen_with_continuation_def Let_def split: sum.splits option.splits)

lemma merge_not_performed:
  "merge_continuation loads partial_json continuation_output = Inr None \<longleftrightarrow>
     truthy_with_files (fst (extract_partial_json loads continuation_output)) = Inr False"
  by (auto simp: merge_continuation_def Let_def split: sum.splits bool.splits)

lemma truthy_with_files_False:
  "truthy_with_files x = Inr False \<longleftrightarrow>
     \<not> py_truthy x \<or> py_contains_str ''files'' x = Inr False"
  by (simp add: truthy_with_files_def)

text \<open>
  C3, as the code has it. Let the primary output be incomplete with a repaired value
  that is true, so that the continuation worker is run. When the merge is not performed,
  because the value recovered from the continuation output is false (\<^verbatim>\<open>None\<close> when it
  does not parse) or does not contain \<open>files\<close>, or because the merge raises, the
  function returns the primary output as it was accumulated: \<^verbatim>\<open>full_output\<close> is assigned
  only after a merge. The function is total: it returns a string on every path.
\<close>

theorem failed_merge_keeps_primary_output:
  "run ag user_input = Inr pieces \<Longrightarrow>
   extract_partial_json loads (accumulate pieces) = (partial_json, False) \<Longrightarrow>
   py_truthy partial_json \<Longrightarrow>
   continuation_output =
     stream_codegen_async run continuation_agent
       (json_dumps None (continuation_input user_input (accumulate pieces) partial_json)) \<Longrightarrow>
   continuation_json = fst (extract_partial_json loads continuation_output) \<Longrightarrow>
   (\<not> py_truthy continuation_json
      \<or> py_contains_str ''files'' continuation_json = Inr False
      \<or> (\<exists>e. merge_continuation loads partial_json continuation_output = Inl e)) \<Longrightarrow>
   fst (stream_codegen_with_continuation loads run ag user_input st) = accumulate pieces"
proof -
  assume r: "run ag user_input = Inr pieces"
    and x: "extract_partial_json loads (accumulate pieces) = (partial_json, False)"
    and t: "py_truthy partial_json"
    and co: "continuation_output =
      stream_codegen_async run continuation_agent
        (json_dumps None (continuation_input user_input (accumulate pieces) partial_json))"
    and cj: "continuation_json = fst (extract_partial_json loads continuation_output)"
    and f: "\<not> py_truthy continuation_json
      \<or> py_contains_str ''files'' continuation_json = Inr False
      \<or> (\<exists>e. merge_continuation loads partial_json continuation_output = Inl e)"
  from f cj have "merge_continuation loads partial_json continuation_output = Inr None
      \<or> (\<exists>e. merge_continuation loads partial_json continuation_output = Inl e)"
    by (auto simp: merge_not_performed truthy_with_files_False)
  then show ?thesis
    using continuation_branch [of run ag user_input pieces loads partial_json st] r x t co
    by auto
qed

lemmas scenario_defs =
  scripted_run_def accumulate_def extract_partial_json_def close_text_defs decoder_defs
  stream_codegen_async_def

theorem failed_merge_keeps_primary_output_witness:
  \<open>scripted_run [''{"files":{"a.js":'', ''"x"''] [''I cannot '', ''continue'']
       codegen_agent ''build a shop'' = Inr [''{"files":{"a.js":'', ''"x"'']
   \<and> accumulate [''{"files":{"a.js":'', ''"x"''] = ''{"files":{"a.js":"x"''
   \<and> extract_partial_json json_loads ''{"files":{"a.js":"x"'' =
       (JDict [(KStr ''files'', JDict [(KStr ''a.js'', JStr ''x'')])], False)
   \<and> py_truthy (JDict [(KStr ''files'', JDict [(KStr ''a.js'', JStr ''x'')])])
   \<and> stream_codegen_async
        (scripted_run [''{"files":{"a.js":'', ''"x"''] [''I cannot '', ''continue''])
        continuation_agent
        (json_dumps None (continuation_input ''build a shop'' ''{"files":{"a.js":"x"''
           (JDict [(KStr ''files'', JDict [(KStr ''a.js'', JStr ''x'')])]))) =
       ''I cannot continue''
   \<and> \<not> py_truthy (fst (extract_partial_json json_loads ''I cannot continue''))
   \<and> fst (stream_codegen_with_continuation json_loads
        (scripted_run [''{"files":{"a.js":'', ''"x"''] [''I cannot '', ''continue''])
        codegen_agent ''build a shop'' (TokenManager_init 8000 7500 0, ProjectContext_init)) =
       ''{"files":{"a.js":"x"''\<close>
proof -
  let ?run = \<open>scripted_run [''{"files":{"a.js":'', ''"x"''] [''I cannot '', ''continue'']\<close>
  let ?pieces = \<open>[''{"files":{"a.js":'', ''"x"'']\<close>
  let ?pj = "JDict [(KStr ''files'', JDict [(KStr ''a.js'', JStr ''x'')])]"
  let ?co = "stream_codegen_async ?run continuation_agent
        (json_dumps None (continuation_input ''build a shop'' (accumulate ?pieces) ?pj))"
  have a: "?run codegen_agent ''build a shop'' = Inr ?pieces"
    by (simp add: scripted_run_def)
  have b: \<open>accumulate ?pieces = ''{"files":{"a.js":"x"''\<close>
    by (simp add: accumulate_def)
  have c: \<open>extract_partial_json json_loads ''{"files":{"a.js":"x"'' = (?pj, False)\<close>
    by (simp add: scenario_defs)
  have d: "py_truthy ?pj" by simp
  have e: "?co = ''I cannot continue''"
    by (simp add: scripted_run_def stream_codegen_async_def accumulate_def)
  have f: "\<not> py_truthy (fst (extract_partial_json json_loads ''I cannot continue''))"
    by (simp add: scenario_defs)
  from failed_merge_keeps_primary_output
    [of ?run codegen_agent "''build a shop''" ?pieces json_loads ?pj ?co
      "fst (extract_partial_json json_loads ?co)"
      "(TokenManager_init 8000 7500 0, ProjectContext_init)"]
    a b c d e f
  have "fst (stream_codegen_with_continuation json_loads ?run codegen_agent ''build a shop''
      (TokenManager_init 8000 7500 0, ProjectContext_init)) = accumulate ?pieces"
    by simp
  with a b c d e f show ?thesis by simp
qed

text \<open>
  The claim as it was stated fails. In the first run the continuation output does not
  parse; in the second the primary output has a list under \<open>files\<close>, which has no
  \<^verbatim>\<open>update\<close>, so the merge raises. Both return the primary output, not the text of the
  continuation worker.
\<close>

theorem failed_merge_counterexample:
  \<open>fst (stream_codegen_with_continuation json_loads
        (scripted_run [''{"files":{"a.js":'', ''"x"''] [''I cannot '', ''continue''])
        codegen_agent ''build a shop'' (TokenManager_init 8000 7500 0, ProjectContext_init)) =
     ''{"files":{"a.js":"x"''
   \<and> stream_codegen_async
        (scripted_run [''{"files":{"a.js":'', ''"x"''] [''I cannot '', ''continue''])
        continuation_agent
        (json_dumps None (continuation_input ''build a shop'' ''{"files":{"a.js":"x"''
           (JDict [(KStr ''files'', JDict [(KStr ''a.js'', JStr ''x'')])]))) =
       ''I cannot continue''
   \<and> ''{"files":{"a.js":"x"'' \<noteq> ''I cannot continue''
   \<and> merge_continuation json_loads (JDict [(KStr ''files'', JList [JInt 1])])
        ''{"files":{"b.js":"y"}}'' = Inl AttributeError
   \<and> fst (stream_codegen_with_continuation json_loads
        (scripted_run [''{"files":[1''] [''{"files":{"b.js":"y"}}''])
        codegen_agent ''build a shop'' (TokenManager_init 8000 7500 0, ProjectContext_init)) =
     ''{"files":[1''
   \<and> ''{"files":[1'' \<noteq> ''{"files":{"b.js":"y"}}''\<close>
  by (simp add: stream_codegen_with_continuation_def scenario_defs
      merge_continuation_def truthy_with_files_def update_files_def Let_def)

text \<open>
  C6. Let the repaired primary value be an object with an object \<open>pf\<close> under \<open>files\<close>, and
  let the value recovered from the continuation output be an object with an object \<open>cf\<close>
  under \<open>files\<close>. Then the merge succeeds, and the merged object is the primary object
  with \<open>cf\<close> laid over \<open>pf\<close> under \<open>files\<close>: a path of \<open>cf\<close> has the content that \<open>cf\<close>
  gives it, any other path keeps the content of \<open>pf\<close>. The function returns the merged
  object, serialized with an indentation of 2. For \<^verbatim>\<open>{"a.js": "1"}\<close> and
  \<^verbatim>\<open>{"b.js": "2", "a.js": "3"}\<close> the merged files are \<^verbatim>\<open>{"a.js": "3", "b.js": "2"}\<close>.
\<close>

theorem merge_overlays_files:
  \<open>(dict_lookup (KStr ''files'') pd = Some (JDict pf)
     \<and> fst (extract_partial_json loads continuation_output) = JDict cd
     \<and> dict_lookup (KStr ''files'') cd = Some (JDict cf) \<longrightarrow>
       merge_continuation loads (JDict pd) continuation_output =
         Inr (Some (JDict (dict_set (KStr ''files'')
                (JDict (foldl (\<lambda>acc (k, v). dict_set k v acc) pf cf)) pd)))
       \<and> dict_lookup (KStr ''files'')
            (dict_set (KStr ''files'') (JDict (foldl (\<lambda>acc (k, v). dict_set k v acc) pf cf)) pd) =
           Some (JDict (foldl (\<lambda>acc (k, v). dict_set k v acc) pf cf))
       \<and> (run ag user_input = Inr pieces
            \<and> extract_partial_json loads (accumulate pieces) = (JDict pd, False)
            \<and> continuation_output =
                stream_codegen_async run continuation_agent
                  (json_dumps None (continuation_input user_input (accumulate pieces) (JDict pd)))
            \<longrightarrow>
            fst (stream_codegen_with_continuation loads run ag user_input st) =
              json_dumps (Some 2)
                (JDict (dict_set (KStr ''files'')
                   (JDict (foldl (\<lambda>acc (k, v). dict_set k v acc) pf cf)) pd))))
   \<and> dict_lookup k (foldl (\<lambda>acc (k, v). dict_set k v acc) pf cf) =
       (case dict_lookup k (rev cf) of Some v \<Rightarrow> Some v | None \<Rightarrow> dict_lookup k pf)
   \<and> foldl (\<lambda>acc (k, v). dict_set k v acc) [(KStr ''a.js'', JStr ''1'')]
        [(KStr ''b.js'', JStr ''2''), (KStr ''a.js'', JStr ''3'')] =
       [(KStr ''a.js'', JStr ''3''), (KStr ''b.js'', JStr ''2'')]\<close>
proof (intro conjI impI)
  let ?merged = "JDict (dict_set (KStr ''files'')
      (JDict (foldl (\<lambda>acc (k, v). dict_set k v acc) pf cf)) pd)"
  assume h: "dict_lookup (KStr ''files'') pd = Some (JDict pf)
     \<and> fst (extract_partial_json loads continuation_output) = JDict cd
     \<and> dict_lookup (KStr ''files'') cd = Some (JDict cf)"
  then have ne: "pd \<noteq> []" "cd \<noteq> []" by auto
  with h show m: "merge_continuation loads (JDict pd) continuation_output = Inr (Some ?merged)"
    by (simp add: merge_continuation_def truthy_with_files_def update_files_def Let_def)
  show "dict_lookup (KStr ''files'')
        (dict_set (KStr ''files'') (JDict (foldl (\<lambda>acc (k, v). dict_set k v acc) pf cf)) pd) =
      Some (JDict (foldl (\<lambda>acc (k, v). dict_set k v acc) pf cf))"
    by (simp add: dict_lookup_dict_set)
  show "fst (stream_codegen_with_continuation loads run ag user_input st) =
      json_dumps (Some 2) ?merged"
    if r: "run ag user_input = Inr pieces
        \<and> extract_partial_json loads (accumulate pieces) = (JDict pd, False)
        \<and> continuation_output =
            stream_codegen_async run continuation_agent
              (json_dumps None (continuation_input user_input (accumulate pieces) (JDict pd)))"
    using continuation_branch [of run ag user_input pieces loads "JDict pd" st] r m ne
    by simp
next
  show "dict_lookup k (foldl (\<lambda>acc (k, v). dict_set k v acc) pf cf) =
      (case dict_lookup k (rev cf) of Some v \<Rightarrow> Some v | None \<Rightarrow> dict_lookup k pf)"
    by (rule dict_lookup_overlay)
next
  show "foldl (\<lambda>acc (k, v). dict_set k v acc) [(KStr ''a.js'', JStr ''1'')]
        [(KStr ''b.js'', JStr ''2''), (KStr ''a.js'', JStr ''3'')] =
       [(KStr ''a.js'', JStr ''3''), (KStr ''b.js'', JStr ''2'')]"
    by simp
qed

lemmas dumps_defs =
  json_dumps_def newline_indent_def item_separator_def encode_string_def escape_char_def
  replicate_numeral

theorem merge_overlays_files_witness:
  \<open>dict_lookup (KStr ''files'') [(KStr ''files'', JDict [(KStr ''a.js'', JStr ''1'')])] =
     Some (JDict [(KStr ''a.js'', JStr ''1'')])
   \<and> fst (extract_partial_json json_loads ''{"files": {"b.js": "2", "a.js": "3"}}'') =
       JDict [(KStr ''files'', JDict [(KStr ''b.js'', JStr ''2''), (KStr ''a.js'', JStr ''3'')])]
   \<and> merge_continuation json_loads (JDict [(KStr ''files'', JDict [(KStr ''a.js'', JStr ''1'')])])
        ''{"files": {"b.js": "2", "a.js": "3"}}'' =
       Inr (Some (JDict [(KStr ''files'',
                            JDict [(KStr ''a.js'', JStr ''3''), (KStr ''b.js'', JStr ''2'')])]))
   \<and> scripted_run [''{"files": {"a.js"'', '': "1"}''] [''{"files": {"b.js": "2", '', ''"a.js": "3"}}'']
        codegen_agent ''build a shop'' = Inr [''{"files": {"a.js"'', '': "1"}'']
   \<and> extract_partial_json json_loads (accumulate [''{"files": {"a.js"'', '': "1"}'']) =
       (JDict [(KStr ''files'', JDict [(KStr ''a.js'', JStr ''1'')])], False)
   \<and> fst (stream_codegen_with_continuation json_loads
        (scripted_run [''{"files": {"a.js"'', '': "1"}''] [''{"files": {"b.js": "2", '', ''"a.js": "3"}}''])
        codegen_agent ''build a shop'' (TokenManager_init 8000 7500 0, ProjectContext_init)) =
       json_dumps (Some 2)
         (JDict [(KStr ''files'', JDict [(KStr ''a.js'', JStr ''3''), (KStr ''b.js'', JStr ''2'')])])
   \<and> json_dumps (Some 2)
         (JDict [(KStr ''files'', JDict [(KStr ''a.js'', JStr ''3''), (KStr ''b.js'', JStr ''2'')])]) =
       ''{'' @ [CHR 0x0A] @
       ''  "files": {'' @ [CHR 0x0A] @
       ''    "a.js": "3",'' @ [CHR 0x0A] @
       ''    "b.js": "2"'' @ [CHR 0x0A] @
       ''  }'' @ [CHR 0x0A] @
       ''}''\<close>
proof -
  let ?run = \<open>scripted_run [''{"files": {"a.js"'', '': "1"}'']
      [''{"files": {"b.js": "2", '', ''"a.js": "3"}}'']\<close>
  let ?pieces = \<open>[''{"files": {"a.js"'', '': "1"}'']\<close>
  let ?pf = "[(KStr ''a.js'', JStr ''1'')]"
  let ?cf = "[(KStr ''b.js'', JStr ''2''), (KStr ''a.js'', JStr ''3'')]"
  let ?pd = "[(KStr ''files'', JDict ?pf)]"
  let ?cd = "[(KStr ''files'', JDict ?cf)]"
  let ?co = "stream_codegen_async ?run continuation_agent
      (json_dumps None (continuation_input ''build a shop'' (accumulate ?pieces) (JDict ?pd)))"
  let ?st = "(TokenManager_init 8000 7500 0, ProjectContext_init)"
  have co: \<open>?co = ''{"files": {"b.js": "2", "a.js": "3"}}''\<close>
    by (simp add: scripted_run_def stream_codegen_async_def accumulate_def)
  have a: "dict_lookup (KStr ''files'') ?pd = Some (JDict ?pf)" by simp
  have b: \<open>fst (extract_partial_json json_loads ''{"files": {"b.js": "2", "a.js": "3"}}'') = JDict ?cd\<close>
    by (simp add: scenario_defs)
  have c: "dict_lookup (KStr ''files'') ?cd = Some (JDict ?cf)" by simp
  have d: "?run codegen_agent ''build a shop'' = Inr ?pieces"
    by (simp add: scripted_run_def)
  have e: "extract_partial_json json_loads (accumulate ?pieces) = (JDict ?pd, False)"
    by (simp add: scenario_defs)
  have ov: "dict_set (KStr ''files'') (JDict (foldl (\<lambda>acc (k, v). dict_set k v acc) ?pf ?cf)) ?pd =
      [(KStr ''files'', JDict [(KStr ''a.js'', JStr ''3''), (KStr ''b.js'', JStr ''2'')])]"
    by simp
  note inst = merge_overlays_files
    [of ?pd ?pf json_loads ?co ?cd ?cf ?run codegen_agent "''build a shop''" ?pieces ?st KNone]
  from inst a b c co
  have m: "merge_continuation json_loads (JDict ?pd) ?co =
      Inr (Some (JDict (dict_set (KStr ''files'')
        (JDict (foldl (\<lambda>acc (k, v). dict_set k v acc) ?pf ?cf)) ?pd)))"
    by simp
  from inst a b c d e co
  have f: "fst (stream_codegen_with_continuation json_loads ?run codegen_agent ''build a shop'' ?st) =
      json_dumps (Some 2) (JDict (dict_set (KStr ''files'')
        (JDict (foldl (\<lambda>acc (k, v). dict_set k v acc) ?pf ?cf)) ?pd))"
    by simp
  have g: \<open>json_dumps (Some 2)
         (JDict [(KStr ''files'', JDict [(KStr ''a.js'', JStr ''3''), (KStr ''b.js'', JStr ''2'')])]) =
       ''{'' @ [CHR 0x0A] @
       ''  "files": {'' @ [CHR 0x0A] @
       ''    "a.js": "3",'' @ [CHR 0x0A] @
       ''    "b.js": "2"'' @ [CHR 0x0A] @
       ''  }'' @ [CHR 0x0A] @
       ''}''\<close>
    by (simp add: dumps_defs)
  from m co have m': \<open>merge_continuation json_loads (JDict ?pd) ''{"files": {"b.js": "2", "a.js": "3"}}'' =
      Inr (Some (JDict [(KStr ''files'',
                            JDict [(KStr ''a.js'', JStr ''3''), (KStr ''b.js'', JStr ''2'')])]))\<close>
    by (simp only: ov)
  from f have f': "fst (stream_codegen_with_continuation json_loads ?run codegen_agent ''build a shop'' ?st) =
      json_dumps (Some 2)
         (JDict [(KStr ''files'', JDict [(KStr ''a.js'', JStr ''3''), (KStr ''b.js'', JStr ''2'')])])"
    by (simp only: ov)
  from a b m' d e f' g show ?thesis
    by (intro conjI)
qed

end
